theory Spec2Isabelle
  imports Complex_Main
begin

section \<open>Python values, exceptions and string operations\<close>

text \<open>
  Python floats are modelled as real numbers: rounding to IEEE doubles and the non-finite
  values are outside this development, so a value stands for the double nearest to it.
  The one float operation of the code that raises, \<^verbatim>\<open>**\<close> with a result beyond the
  double range, is modelled with its OverflowError.
  A character of \<^typ>\<open>string\<close> is read as a code point below 256.
\<close>

datatype exn =
  KeyError | AttributeError | ValueError | TypeError | IndexError | FileNotFoundError
  | OverflowError | OtherError

text \<open>The scalar JSON values that occur as fields of the exchanged records.\<close>

datatype jval = JStr string | JNum real | JBool bool | JNull

type_synonym pydict = "string \<rightharpoonup> jval"

text \<open>
  Builtins of the Python runtime whose results the code consumes: \<^verbatim>\<open>float(s)\<close> on a
  string (\<open>None\<close> when it raises ValueError) and the \<^verbatim>\<open>str\<close> of a number. They are
  parameters of the model; every theorem holds for all of them.
\<close>

record builtins =
  py_float :: "string \<Rightarrow> real option"
  py_repr :: "real \<Rightarrow> string"

definition py_str :: "builtins \<Rightarrow> jval \<Rightarrow> string" where
  "py_str B v =
     (case v of
        JStr s \<Rightarrow> s
      | JNum r \<Rightarrow> py_repr B r
      | JBool b \<Rightarrow> (if b then ''True'' else ''False'')
      | JNull \<Rightarrow> ''None'')"

text \<open>\<^verbatim>\<open>d.get(key, default)\<close>\<close>

definition dict_get :: "pydict \<Rightarrow> string \<Rightarrow> jval \<Rightarrow> jval" where
  "dict_get d k dflt = (case d k of None \<Rightarrow> dflt | Some v \<Rightarrow> v)"

text \<open>\<^verbatim>\<open>d[key]\<close>\<close>

definition dict_index :: "pydict \<Rightarrow> string \<Rightarrow> exn + jval" where
  "dict_index d k = (case d k of None \<Rightarrow> Inl KeyError | Some v \<Rightarrow> Inr v)"

text \<open>\<^verbatim>\<open>str.lower\<close>: the upper-case letters A-Z and those of Latin-1 move up by 32.\<close>

definition py_lower_char :: "char \<Rightarrow> char" where
  "py_lower_char c =
     (let n = (of_char c :: nat)
      in if (65 \<le> n \<and> n \<le> 90) \<or> (192 \<le> n \<and> n \<le> 222 \<and> n \<noteq> 215)
         then char_of (n + 32) else c)"

definition py_lower :: "string \<Rightarrow> string" where
  "py_lower s = map py_lower_char s"

text \<open>\<^verbatim>\<open>v.lower()\<close> on a field value: only a string has the method.\<close>

definition lower_method :: "jval \<Rightarrow> exn + string" where
  "lower_method v = (case v of JStr s \<Rightarrow> Inr (py_lower s) | _ \<Rightarrow> Inl AttributeError)"

text \<open>\<^verbatim>\<open>str.strip()\<close> removes white space at both ends.\<close>

definition py_isspace :: "char \<Rightarrow> bool" where
  "py_isspace c =
     (let n = (of_char c :: nat)
      in (9 \<le> n \<and> n \<le> 13) \<or> (28 \<le> n \<and> n \<le> 32) \<or> n = 133 \<or> n = 160)"

definition py_strip :: "string \<Rightarrow> string" where
  "py_strip s = rev (dropWhile py_isspace (rev (dropWhile py_isspace s)))"

text \<open>\<^verbatim>\<open>s.replace('%', '')\<close>\<close>

definition remove_percent :: "string \<Rightarrow> string" where
  "remove_percent s = filter (\<lambda>c. c \<noteq> CHR ''%'') s"

text \<open>\<^verbatim>\<open>k in s\<close> on strings: \<open>k\<close> occurs in \<open>s\<close> as a contiguous block.\<close>

fun starts_with :: "string \<Rightarrow> string \<Rightarrow> bool" where
  "starts_with [] s = True"
| "starts_with (k # ks) [] = False"
| "starts_with (k # ks) (c # cs) = (k = c \<and> starts_with ks cs)"

fun py_in :: "string \<Rightarrow> string \<Rightarrow> bool" where
  "py_in k [] = (k = [])"
| "py_in k (c # cs) = (starts_with k (c # cs) \<or> py_in k cs)"

text \<open>Decimal digits of a natural number.\<close>

fun show_nat :: "nat \<Rightarrow> string" where
  "show_nat n =
     (if n < 10 then [''0123456789'' ! n]
      else show_nat (n div 10) @ [''0123456789'' ! (n mod 10)])"

text \<open>Rounding to the nearest integer, ties to the even one, as Python's \<^verbatim>\<open>round\<close>
  and its \<^verbatim>\<open>.2f\<close> format do.\<close>

definition round_half_even :: "real \<Rightarrow> int" where
  "round_half_even x =
     (let f = \<lfloor>x\<rfloor>; d = x - of_int f
      in if d < 1 / 2 then f else if 1 / 2 < d then f + 1
         else if even f then f else f + 1)"

text \<open>\<^verbatim>\<open>round(x, 2)\<close>\<close>

definition py_round2 :: "real \<Rightarrow> real" where
  "py_round2 x = of_int (round_half_even (x * 100)) / 100"

text \<open>\<^verbatim>\<open>f"{x:.2f}"\<close>\<close>

definition fmt2 :: "real \<Rightarrow> string" where
  "fmt2 x =
     (let n = nat (round_half_even (\<bar>x\<bar> * 100))
      in (if x < 0 then ''-'' else '''') @ show_nat (n div 100) @ ''.'' @
         [''0123456789'' ! ((n div 10) mod 10), ''0123456789'' ! (n mod 10)])"

section \<open>Bluetooth threat model (bluetooth\_detection\_model.py)\<close>

definition RSSI_AT_1M :: real where
  "RSSI_AT_1M = - 59"

definition PATH_LOSS_EXPONENT :: real where
  "PATH_LOSS_EXPONENT = 28 / 10"

definition MAJOR_CLASS_AUDIO_VIDEO :: int where
  "MAJOR_CLASS_AUDIO_VIDEO = 4"

definition MAJOR_CLASS_PHONE :: int where
  "MAJOR_CLASS_PHONE = 2"

text \<open>
  \<^verbatim>\<open>
  def get_major_class_from_name(device_name):
      if not device_name:
          return 0x00
      name_lower = device_name.lower()
      if "mic" in name_lower or "headset" in name_lower or "speaker" in name_lower:
          return MAJOR_CLASS_AUDIO_VIDEO
      return MAJOR_CLASS_PHONE
  \<close>
\<close>

definition get_major_class_from_name :: "string \<Rightarrow> int" where
  "get_major_class_from_name device_name =
     (if device_name = [] then 0
      else (let name_lower = py_lower device_name
            in if py_in ''mic'' name_lower \<or> py_in ''headset'' name_lower
                  \<or> py_in ''speaker'' name_lower
               then MAJOR_CLASS_AUDIO_VIDEO
               else MAJOR_CLASS_PHONE))"

text \<open>The largest finite double, (2 - 2^-52) * 2^1023.\<close>

definition DBL_MAX :: real where
  "DBL_MAX = 2 ^ 1024 - 2 ^ 971"

text \<open>
  \<^verbatim>\<open>10 ** power\<close> on floats: Python raises OverflowError when the result is beyond
  the double range.
\<close>

definition float_pow10 :: "real \<Rightarrow> exn + real" where
  "float_pow10 exponent =
     (if DBL_MAX < 10 powr exponent then Inl OverflowError else Inr (10 powr exponent))"

text \<open>
  \<^verbatim>\<open>
  def calculate_distance(rssi):
      if rssi >= RSSI_AT_1M:
          return 0.1
      power = (RSSI_AT_1M - rssi) / (10.0 * PATH_LOSS_EXPONENT)
      distance = 10 ** power
      return distance
  \<close>
\<close>

definition calculate_distance :: "real \<Rightarrow> exn + real" where
  "calculate_distance rssi =
     (if rssi \<ge> RSSI_AT_1M then Inr (1 / 10)
      else (let power = (RSSI_AT_1M - rssi) / (10 * PATH_LOSS_EXPONENT)
            in float_pow10 power))"

text \<open>
  \<open>assess_bluetooth_threat\<close> first picks the level and the description, then builds the
  dictionary it returns. The description embeds the distance with two decimals.
\<close>

definition threat_level_and_description :: "real \<Rightarrow> int \<Rightarrow> string \<Rightarrow> string \<times> string" where
  "threat_level_and_description distance device_class_major device_name_lower =
     (if distance < 5 / 10 then
        (if device_class_major = MAJOR_CLASS_AUDIO_VIDEO
            \<or> py_in ''sniffer'' device_name_lower \<or> py_in ''mic'' device_name_lower
         then (''CRITICAL'',
               ''Proximate Audio/Video, Sniffer, or Mic detected ('' @ fmt2 distance @
               ''m). IMMEDIATE DANGER.'')
         else (''HIGH'',
               ''Unusually close device ('' @ fmt2 distance @
               ''m). Potential for proximity attack (e.g., unauthorized pairing).''))
      else if distance < 3 then
        (if py_in ''mic'' device_name_lower \<or> device_class_major = MAJOR_CLASS_AUDIO_VIDEO
         then (''HIGH'',
               ''Audio/Mic device detected within room ('' @ fmt2 distance @
               ''m). Elevated risk of eavesdropping.'')
         else (''LOW'',
               ''Normal proximity detection ('' @ fmt2 distance @ ''m). Generally secure.''))
      else (''LOW'', ''Safe distance ('' @ fmt2 distance @ ''m). Minimal threat risk.''))"

definition assess_bluetooth_threat :: "real \<Rightarrow> int \<Rightarrow> string \<Rightarrow> exn + pydict" where
  "assess_bluetooth_threat rssi device_class_major device_name =
     (case calculate_distance rssi of
        Inl e \<Rightarrow> Inl e
      | Inr distance \<Rightarrow>
          (let device_name_lower = py_lower device_name;
               (threat_level, description) =
                  threat_level_and_description distance device_class_major device_name_lower
           in Inr [''status'' \<mapsto> JStr threat_level,
                   ''distance_m'' \<mapsto> JNum (py_round2 distance),
                   ''rssi_dbm'' \<mapsto> JNum rssi,
                   ''description'' \<mapsto> JStr description,
                   ''device_type_code'' \<mapsto> JNum (of_int device_class_major),
                   ''device_name'' \<mapsto> JStr device_name]))"

text \<open>
  The body of the loop of \<open>perform_scan_and_assess\<close> for one collected device
  (address, name, rssi), and the loop over the devices of one scan cycle. An exception of
  the assessment ends the loop.
\<close>

definition assess_device :: "string \<times> string \<times> real \<Rightarrow> exn + pydict" where
  "assess_device entry =
     (case entry of (address, name, rssi) \<Rightarrow>
        (let device_class = get_major_class_from_name name
         in case assess_bluetooth_threat rssi device_class name of
              Inl e \<Rightarrow> Inl e
            | Inr threat_result \<Rightarrow> Inr (threat_result(''address'' \<mapsto> JStr address))))"

fun perform_scan_and_assess :: "(string \<times> string \<times> real) list \<Rightarrow> exn + pydict list" where
  "perform_scan_and_assess [] = Inr []"
| "perform_scan_and_assess (entry # rest) =
     (case assess_device entry of
        Inl e \<Rightarrow> Inl e
      | Inr threat_result \<Rightarrow>
          (case perform_scan_and_assess rest of
             Inl e \<Rightarrow> Inl e
           | Inr results \<Rightarrow> Inr (threat_result # results)))"

section \<open>The scoring pipeline (app.py, whispr\_live\_prediction.py)\<close>

type_synonym fvec = "real list"

text \<open>
  The three persisted artifacts are objects of scikit-learn. Each is modelled by the one
  method the code calls on it, which returns a value or raises. A global that is still
  \<open>None\<close> has no such method: calling it raises AttributeError.
\<close>

record artifacts =
  SCALER :: "(fvec \<Rightarrow> exn + fvec) option"
  PCA :: "(fvec \<Rightarrow> exn + fvec) option"
  MODEL :: "(fvec \<Rightarrow> exn + real list) option"

definition call_method :: "('a \<Rightarrow> exn + 'b) option \<Rightarrow> 'a \<Rightarrow> exn + 'b" where
  "call_method obj x = (case obj of None \<Rightarrow> Inl AttributeError | Some f \<Rightarrow> f x)"

text \<open>Outcome of one \<^verbatim>\<open>joblib.load\<close> at start-up.\<close>

datatype 'a load_result = Loaded 'a | LoadNotFound | LoadFailed

text \<open>
  Start-up of app.py. The globals start as \<open>None\<close>; the three loads run in order inside
  one \<^verbatim>\<open>try\<close>. FileNotFoundError ends the process (\<^verbatim>\<open>exit(1)\<close>, the result
  \<open>None\<close> here); any other exception is printed and the server goes on with the globals
  assigned so far.
\<close>

definition app_startup ::
  "(fvec \<Rightarrow> exn + fvec) load_result \<Rightarrow> (fvec \<Rightarrow> exn + fvec) load_result \<Rightarrow>
   (fvec \<Rightarrow> exn + real list) load_result \<Rightarrow> artifacts option" where
  "app_startup ls lp lm =
     (case ls of
        LoadNotFound \<Rightarrow> None
      | LoadFailed \<Rightarrow> Some \<lparr>SCALER = None, PCA = None, MODEL = None\<rparr>
      | Loaded s \<Rightarrow>
          (case lp of
             LoadNotFound \<Rightarrow> None
           | LoadFailed \<Rightarrow> Some \<lparr>SCALER = Some s, PCA = None, MODEL = None\<rparr>
           | Loaded p \<Rightarrow>
               (case lm of
                  LoadNotFound \<Rightarrow> None
                | LoadFailed \<Rightarrow> Some \<lparr>SCALER = Some s, PCA = Some p, MODEL = None\<rparr>
                | Loaded m \<Rightarrow> Some \<lparr>SCALER = Some s, PCA = Some p, MODEL = Some m\<rparr>)))"

text \<open>
  Start-up of whispr\_live\_prediction.py: FileNotFoundError sets all three globals to
  \<open>None\<close>; any other exception is not caught and ends the script (\<open>None\<close> here).
\<close>

definition live_startup ::
  "(fvec \<Rightarrow> exn + fvec) load_result \<Rightarrow> (fvec \<Rightarrow> exn + fvec) load_result \<Rightarrow>
   (fvec \<Rightarrow> exn + real list) load_result \<Rightarrow> artifacts option" where
  "live_startup ls lp lm =
     (case ls of
        LoadNotFound \<Rightarrow> Some \<lparr>SCALER = None, PCA = None, MODEL = None\<rparr>
      | LoadFailed \<Rightarrow> None
      | Loaded s \<Rightarrow>
          (case lp of
             LoadNotFound \<Rightarrow> Some \<lparr>SCALER = None, PCA = None, MODEL = None\<rparr>
           | LoadFailed \<Rightarrow> None
           | Loaded p \<Rightarrow>
               (case lm of
                  LoadNotFound \<Rightarrow> Some \<lparr>SCALER = None, PCA = None, MODEL = None\<rparr>
                | LoadFailed \<Rightarrow> None
                | Loaded m \<Rightarrow> Some \<lparr>SCALER = Some s, PCA = Some p, MODEL = Some m\<rparr>)))"

text \<open>
  The statements both scoring functions share:
  \<^verbatim>\<open>
  signal_data = raw_features.reshape(1, -1)
  scaled_data = SCALER.transform(signal_data)
  processed_data = PCA.transform(scaled_data)
  anomaly_score = MODEL.decision_function(processed_data)[0]
  \<close>
\<close>

definition transform_and_score :: "artifacts \<Rightarrow> fvec \<Rightarrow> exn + real" where
  "transform_and_score G raw_features =
     (case call_method (SCALER G) raw_features of
        Inl e \<Rightarrow> Inl e
      | Inr scaled_data \<Rightarrow>
          (case call_method (PCA G) scaled_data of
             Inl e \<Rightarrow> Inl e
           | Inr processed_data \<Rightarrow>
               (case call_method (MODEL G) processed_data of
                  Inl e \<Rightarrow> Inl e
                | Inr scores \<Rightarrow>
                    (case scores of [] \<Rightarrow> Inl IndexError | anomaly_score # _ \<Rightarrow> Inr anomaly_score))))"

definition THREAT_THRESHOLD :: real where
  "THREAT_THRESHOLD = - 1 / 100"

text \<open>
  app.py:
  \<^verbatim>\<open>
  def assess_signal(raw_features):
      if MODEL is None:
          return "PROCESSING_ERROR", 999.0
      try:
          ...
          risk_level = "THREAT" if anomaly_score < THREAT_THRESHOLD else "BENIGN"
          return risk_level, anomaly_score
      except Exception as e:
          return "PROCESSING_ERROR", 999.0
  \<close>
\<close>

definition assess_signal :: "artifacts \<Rightarrow> fvec \<Rightarrow> exn + string \<times> real" where
  "assess_signal G raw_features =
     (if MODEL G = None then Inr (''PROCESSING_ERROR'', 999)
      else (case transform_and_score G raw_features of
              Inr anomaly_score \<Rightarrow>
                Inr (if anomaly_score < THREAT_THRESHOLD then ''THREAT'' else ''BENIGN'',
                     anomaly_score)
            | Inl e \<Rightarrow> Inr (''PROCESSING_ERROR'', 999)))"

text \<open>
  whispr\_live\_prediction.py: the same steps with no \<^verbatim>\<open>try\<close> around them, the label
  \<^verbatim>\<open>"ERROR"\<close> for a missing model and a threshold of its own, -0.1.
\<close>

definition assess_live_signal :: "artifacts \<Rightarrow> fvec \<Rightarrow> exn + string \<times> real" where
  "assess_live_signal G raw_features =
     (if MODEL G = None then Inr (''ERROR'', 999)
      else (case transform_and_score G raw_features of
              Inl e \<Rightarrow> Inl e
            | Inr anomaly_score \<Rightarrow>
                Inr (if anomaly_score < - 1 / 10 then ''THREAT'' else ''BENIGN'',
                     anomaly_score)))"

section \<open>The Wi-Fi resolver (app.py, process\_wifi\_data)\<close>

record wifi_report =
  result :: string
  score :: real
  raw_features :: "real list"
  ssid :: jval
  networks :: "pydict list"
  threat_tier :: string

definition public_keywords :: "string list" where
  "public_keywords = [''guest'', ''free'', ''public'', ''cafe'', ''airport'', ''hotel'']"

text \<open>
  Lines 101 to 149: from the connected network to the feature vector and the tier of the
  security and SSID rules. The only statement that can raise is \<^verbatim>\<open>.lower()\<close> on an
  SSID that is not a string; \<^verbatim>\<open>float\<close>'s ValueError is caught and gives 70.0.
\<close>

definition derive_features :: "builtins \<Rightarrow> pydict \<Rightarrow> exn + fvec \<times> string" where
  "derive_features B connected_network =
     (let security_value =
            py_lower (py_str B (dict_get connected_network ''Authentication'' (JStr ''N/A'')));
          signal_percent_str =
            py_strip (remove_percent
              (py_str B (dict_get connected_network ''Signal (%)'' (JStr ''70%''))))
      in case lower_method (dict_get connected_network ''SSID'' (JStr '''')) of
           Inl e \<Rightarrow> Inl e
         | Inr ssid_value \<Rightarrow>
            (let signal_percent =
                   (case py_float B signal_percent_str of Some x \<Rightarrow> x | None \<Rightarrow> 70);
                 is_secure = (py_in ''wpa'' security_value \<or> py_in ''wpa2'' security_value
                                \<or> py_in ''wpa3'' security_value);
                 is_open = (\<not> is_secure);
                 is_public_open = (is_open \<and> list_ex (\<lambda>k. py_in k ssid_value) public_keywords);
                 (rssi_variance, probe_rate, oui_trust, anomaly_flag, tier) =
                   (if is_open then
                      (if is_public_open then (5, 30, 7, 0, ''MILD'')
                       else (25, 150, 1, 1, ''HIGH''))
                    else (15 / 10, 10, 9, 0, ''LOW''));
                 rssi_mean = - 100 + signal_percent * (7 / 10)
             in Inr ([rssi_mean, rssi_variance, probe_rate, oui_trust, anomaly_flag], tier)))"

definition no_networks_report :: wifi_report where
  "no_networks_report =
     \<lparr>result = ''NO_NETWORKS_FOUND'', score = 0, raw_features = replicate 5 (- 1),
      ssid = JStr ''N/A'', networks = [], threat_tier = ''LOW''\<rparr>"

text \<open>
  The log line at line 157 reads \<^verbatim>\<open>connected_network['SSID']\<close> before the report is
  built, so a record with no SSID raises KeyError there.
\<close>

definition process_wifi_data :: "builtins \<Rightarrow> artifacts \<Rightarrow> pydict list \<Rightarrow> exn + wifi_report" where
  "process_wifi_data B G full_network_list =
     (case full_network_list of
        [] \<Rightarrow> Inr no_networks_report
      | connected_network # _ \<Rightarrow>
          (case derive_features B connected_network of
             Inl e \<Rightarrow> Inl e
           | Inr (raw_features_to_score, heuristic_tier) \<Rightarrow>
               (case assess_signal G raw_features_to_score of
                  Inl e \<Rightarrow> Inl e
                | Inr (risk_level, sc) \<Rightarrow>
                    (let tier = (if risk_level = ''THREAT'' then ''CRITICAL'' else heuristic_tier)
                     in case dict_index connected_network ''SSID'' of
                          Inl e \<Rightarrow> Inl e
                        | Inr logged_ssid \<Rightarrow>
                            (case dict_index connected_network ''SSID'' of
                               Inl e \<Rightarrow> Inl e
                             | Inr ssid_field \<Rightarrow>
                                 Inr \<lparr>result = risk_level, score = sc,
                                      raw_features = raw_features_to_score,
                                      ssid = ssid_field, networks = full_network_list,
                                      threat_tier = tier\<rparr>)))))"

section \<open>The change watcher (app.py, check\_for\_file\_updates)\<close>

text \<open>
  What one pass of the loop body reads from its environment: the result of
  \<^verbatim>\<open>os.path.getmtime\<close>, the result of \<^verbatim>\<open>get_latest_scan_data()\<close> (\<open>None\<close> when the
  file is missing or cannot be parsed) and whether \<^verbatim>\<open>socketio.emit\<close> raises.
\<close>

record observation =
  mtime :: "exn + real"
  payload :: "pydict list option"
  emit_error :: "exn option"

text \<open>
  What the pass leaves behind: the global \<open>last_modified_time\<close>, whether the change
  branch was entered (the "FILE CHANGE DETECTED" line), the reports emitted and the
  seconds slept.
\<close>

record tick_outcome =
  last_modified_time :: real
  change_detected :: bool
  emitted :: "wifi_report list"
  slept :: real

definition tick :: "builtins \<Rightarrow> artifacts \<Rightarrow> real \<Rightarrow> observation \<Rightarrow> tick_outcome" where
  "tick B G last_seen obs =
     (case mtime obs of
        Inl e \<Rightarrow>
          \<lparr>last_modified_time = last_seen, change_detected = False, emitted = [], slept = 5\<rparr>
      | Inr current_modified_time \<Rightarrow>
          (if current_modified_time > last_seen then
             (case payload obs of
                None \<Rightarrow>
                  \<lparr>last_modified_time = last_seen, change_detected = True, emitted = [],
                   slept = 1\<rparr>
              | Some full_network_list \<Rightarrow>
                  (if full_network_list = [] then
                     \<lparr>last_modified_time = last_seen, change_detected = True, emitted = [],
                      slept = 1\<rparr>
                   else
                     (case process_wifi_data B G full_network_list of
                        Inl e \<Rightarrow>
                          \<lparr>last_modified_time = last_seen, change_detected = True,
                           emitted = [], slept = 5\<rparr>
                      | Inr report_data \<Rightarrow>
                          (case emit_error obs of
                             Some e \<Rightarrow>
                               \<lparr>last_modified_time = last_seen, change_detected = True,
                                emitted = [], slept = 5\<rparr>
                           | None \<Rightarrow>
                               \<lparr>last_modified_time = current_modified_time,
                                change_detected = True, emitted = [report_data],
                                slept = 1\<rparr>))))
           else
             \<lparr>last_modified_time = last_seen, change_detected = False, emitted = [],
              slept = 1\<rparr>))"

text \<open>The loop, over the observations of the passes made before the stop event is set.\<close>

fun check_for_file_updates ::
  "builtins \<Rightarrow> artifacts \<Rightarrow> real \<Rightarrow> observation list \<Rightarrow> real \<times> wifi_report list" where
  "check_for_file_updates B G last_seen [] = (last_seen, [])"
| "check_for_file_updates B G last_seen (obs # rest) =
     (let out = tick B G last_seen obs;
          (final, later) = check_for_file_updates B G (last_modified_time out) rest
      in (final, emitted out @ later))"

section \<open>The Bluetooth report endpoint (app.py, bluetooth\_scan\_endpoint)\<close>

definition BT_PROXIMITY_LIMIT :: real where
  "BT_PROXIMITY_LIMIT = 10"

text \<open>The file written by the scanner: a dictionary with these four keys.\<close>

record bt_scan_data =
  sd_scan_time :: "jval option"
  sd_iteration :: "jval option"
  sd_devices_detected :: "jval option"
  sd_devices :: "pydict list option"

record bt_metadata =
  scan_time :: jval
  iteration :: jval

record bt_section =
  devices_detected :: nat
  devices :: "pydict list"
  max_threat :: string

record bt_response =
  metadata :: bt_metadata
  bluetooth :: bt_section

text \<open>\<^verbatim>\<open>not bt_raw_data\<close>: no data, or a dictionary with no key.\<close>

definition falsy :: "bt_scan_data option \<Rightarrow> bool" where
  "falsy raw =
     (case raw of
        None \<Rightarrow> True
      | Some d \<Rightarrow> sd_scan_time d = None \<and> sd_iteration d = None
                  \<and> sd_devices_detected d = None \<and> sd_devices d = None)"

text \<open>
  \<^verbatim>\<open>device.get('distance_m', BT_PROXIMITY_LIMIT + 1) <= BT_PROXIMITY_LIMIT\<close>: a number
  is compared, a Boolean counts as 0 or 1, a string or \<open>None\<close> raises TypeError.
\<close>

definition within_limit :: "pydict \<Rightarrow> exn + bool" where
  "within_limit device =
     (case dict_get device ''distance_m'' (JNum (BT_PROXIMITY_LIMIT + 1)) of
        JNum x \<Rightarrow> Inr (x \<le> BT_PROXIMITY_LIMIT)
      | JBool b \<Rightarrow> Inr ((if b then 1 else 0) \<le> BT_PROXIMITY_LIMIT)
      | JStr s \<Rightarrow> Inl TypeError
      | JNull \<Rightarrow> Inl TypeError)"

fun filter_devices :: "pydict list \<Rightarrow> exn + pydict list" where
  "filter_devices [] = Inr []"
| "filter_devices (device # rest) =
     (case within_limit device of
        Inl e \<Rightarrow> Inl e
      | Inr keep \<Rightarrow>
          (case filter_devices rest of
             Inl e \<Rightarrow> Inl e
           | Inr kept \<Rightarrow> Inr (if keep then device # kept else kept)))"

text \<open>
  \<^verbatim>\<open>
  for device in filtered_devices:
      if device['status'] == 'CRITICAL':
          max_threat = 'CRITICAL'
          break
      elif device['status'] == 'HIGH':
          max_threat = 'HIGH'
  \<close>
\<close>

fun max_threat_loop :: "string \<Rightarrow> pydict list \<Rightarrow> exn + string" where
  "max_threat_loop current [] = Inr current"
| "max_threat_loop current (device # rest) =
     (case dict_index device ''status'' of
        Inl e \<Rightarrow> Inl e
      | Inr st \<Rightarrow>
          (if st = JStr ''CRITICAL'' then Inr ''CRITICAL''
           else if st = JStr ''HIGH'' then max_threat_loop ''HIGH'' rest
           else max_threat_loop current rest))"

text \<open>The endpoint; \<open>now\<close> is the formatted current time.\<close>

definition bluetooth_scan_endpoint :: "string \<Rightarrow> bt_scan_data option \<Rightarrow> exn + bt_response" where
  "bluetooth_scan_endpoint now bt_raw_data =
     (case bt_raw_data of
        None \<Rightarrow>
          Inr \<lparr>metadata = \<lparr>scan_time = JStr now, iteration = JNum 0\<rparr>,
               bluetooth = \<lparr>devices_detected = 0, devices = [], max_threat = ''LOW''\<rparr>\<rparr>
      | Some d \<Rightarrow>
          (if falsy bt_raw_data then
             Inr \<lparr>metadata = \<lparr>scan_time = JStr now, iteration = JNum 0\<rparr>,
                  bluetooth = \<lparr>devices_detected = 0, devices = [], max_threat = ''LOW''\<rparr>\<rparr>
           else
             (case filter_devices (case sd_devices d of None \<Rightarrow> [] | Some ds \<Rightarrow> ds) of
                Inl e \<Rightarrow> Inl e
              | Inr filtered_devices \<Rightarrow>
                  (case max_threat_loop ''LOW'' filtered_devices of
                     Inl e \<Rightarrow> Inl e
                   | Inr mt \<Rightarrow>
                       Inr \<lparr>metadata =
                              \<lparr>scan_time = (case sd_scan_time d of None \<Rightarrow> JStr now | Some t \<Rightarrow> t),
                               iteration = (case sd_iteration d of None \<Rightarrow> JNum 1 | Some i \<Rightarrow> i)\<rparr>,
                            bluetooth =
                              \<lparr>devices_detected = length filtered_devices,
                               devices = filtered_devices, max_threat = mt\<rparr>\<rparr>))))"

section \<open>Sample environments for concrete evaluation\<close>

text \<open>\<^verbatim>\<open>float\<close> restricted to non-empty strings of decimal digits.\<close>

definition digit_value :: "char \<Rightarrow> nat option" where
  "digit_value c =
     (let n = (of_char c :: nat) in if 48 \<le> n \<and> n \<le> 57 then Some (n - 48) else None)"

fun digits_value :: "nat \<Rightarrow> string \<Rightarrow> nat option" where
  "digits_value acc [] = Some acc"
| "digits_value acc (c # cs) =
     (case digit_value c of None \<Rightarrow> None | Some d \<Rightarrow> digits_value (10 * acc + d) cs)"

definition float_of_digits :: "string \<Rightarrow> real option" where
  "float_of_digits s =
     (if s = [] then None else map_option of_nat (digits_value 0 s))"

definition sample_builtins :: builtins where
  "sample_builtins = \<lparr>py_float = float_of_digits, py_repr = (\<lambda>r. ''0.0'')\<rparr>"

text \<open>Artifacts that pass the vector on, and models with a fixed score.\<close>

definition identity_transform :: "fvec \<Rightarrow> exn + fvec" where
  "identity_transform x = Inr x"

definition raising_transform :: "fvec \<Rightarrow> exn + fvec" where
  "raising_transform x = Inl ValueError"

definition alarmed_model :: "fvec \<Rightarrow> exn + real list" where
  "alarmed_model x = Inr [- 1 / 2]"

definition calm_model :: "fvec \<Rightarrow> exn + real list" where
  "calm_model x = Inr [1 / 4]"

definition alarmed_artifacts :: artifacts where
  "alarmed_artifacts =
     \<lparr>SCALER = Some identity_transform, PCA = Some identity_transform,
      MODEL = Some alarmed_model\<rparr>"

definition calm_artifacts :: artifacts where
  "calm_artifacts =
     \<lparr>SCALER = Some identity_transform, PCA = Some identity_transform,
      MODEL = Some calm_model\<rparr>"

definition broken_artifacts :: artifacts where
  "broken_artifacts =
     \<lparr>SCALER = Some raising_transform, PCA = Some identity_transform,
      MODEL = Some calm_model\<rparr>"

definition no_artifacts :: artifacts where
  "no_artifacts = \<lparr>SCALER = None, PCA = None, MODEL = None\<rparr>"

definition home_network :: pydict where
  "home_network =
     [''SSID'' \<mapsto> JStr ''HomeNet'', ''Authentication'' \<mapsto> JStr ''WPA2-Personal'',
      ''Signal (%)'' \<mapsto> JStr ''80%'']"

definition airport_network :: pydict where
  "airport_network =
     [''SSID'' \<mapsto> JStr ''Free Airport WiFi'', ''Authentication'' \<mapsto> JStr ''Open'',
      ''Signal (%)'' \<mapsto> JStr ''50%'']"

definition unknown_open_network :: pydict where
  "unknown_open_network =
     [''SSID'' \<mapsto> JStr ''xyz123'', ''Authentication'' \<mapsto> JStr ''Open'',
      ''Signal (%)'' \<mapsto> JStr ''90%'']"

definition nameless_network :: pydict where
  "nameless_network =
     [''Authentication'' \<mapsto> JStr ''WPA2-Personal'', ''Signal (%)'' \<mapsto> JStr ''80%'']"

text \<open>Device entries as the scanner writes them, reduced to the keys the endpoint reads.\<close>

definition near_device :: pydict where
  "near_device =
     [''address'' \<mapsto> JStr ''AA:01'', ''status'' \<mapsto> JStr ''HIGH'',
      ''distance_m'' \<mapsto> JNum (25 / 10)]"

definition edge_device :: pydict where
  "edge_device =
     [''address'' \<mapsto> JStr ''AA:02'', ''status'' \<mapsto> JStr ''LOW'',
      ''distance_m'' \<mapsto> JNum 10]"

definition far_device :: pydict where
  "far_device =
     [''address'' \<mapsto> JStr ''AA:03'', ''status'' \<mapsto> JStr ''CRITICAL'',
      ''distance_m'' \<mapsto> JNum 12]"

definition unmeasured_device :: pydict where
  "unmeasured_device = [''address'' \<mapsto> JStr ''AA:04'', ''status'' \<mapsto> JStr ''CRITICAL'']"

definition sample_scan :: bt_scan_data where
  "sample_scan =
     \<lparr>sd_scan_time = Some (JStr ''2025-01-01 10:00:00''), sd_iteration = Some (JNum 7),
      sd_devices_detected = Some (JNum 4),
      sd_devices = Some [far_device, near_device, unmeasured_device, edge_device]\<rparr>"

text \<open>Observations of the watcher: a changed file that reads empty, unreadable or full.\<close>

definition empty_read :: observation where
  "empty_read = \<lparr>mtime = Inr 200, payload = Some [], emit_error = None\<rparr>"

definition failed_read :: observation where
  "failed_read = \<lparr>mtime = Inr 200, payload = None, emit_error = None\<rparr>"

definition good_read :: observation where
  "good_read = \<lparr>mtime = Inr 200, payload = Some [home_network], emit_error = None\<rparr>"

text \<open>The globals of app.py after a start-up in which the second load failed.\<close>

definition half_loaded_artifacts :: artifacts where
  "half_loaded_artifacts = \<lparr>SCALER = Some identity_transform, PCA = None, MODEL = None\<rparr>"

section \<open>Evaluation rules for concrete strings\<close>

lemmas string_eval =
  py_lower_def py_lower_char_def char_of_def bit_Suc_0_iff py_strip_def py_isspace_def
  remove_percent_def

lemmas sample_eval =
  sample_builtins_def float_of_digits_def digit_value_def dict_get_def dict_index_def
  py_str_def lower_method_def public_keywords_def

lemmas artifact_eval =
  transform_and_score_def call_method_def identity_transform_def raising_transform_def
  alarmed_model_def calm_model_def THREAT_THRESHOLD_def

section \<open>Substring test\<close>

lemma starts_with_iff: "starts_with k s \<longleftrightarrow> (\<exists>q. s = k @ q)"
  by (induction k s rule: starts_with.induct) auto

lemma py_in_iff: "py_in k s \<longleftrightarrow> (\<exists>p q. s = p @ k @ q)"
proof (induction s)
  case Nil
  then show ?case by simp
next
  case (Cons c cs)
  show ?case
  proof
    assume "py_in k (c # cs)"
    then consider "starts_with k (c # cs)" | "py_in k cs" by auto
    then show "\<exists>p q. c # cs = p @ k @ q"
    proof cases
      case 1
      then obtain q where "c # cs = k @ q" by (auto simp: starts_with_iff)
      then have "c # cs = [] @ k @ q" by simp
      then show ?thesis by blast
    next
      case 2
      then obtain p q where "cs = p @ k @ q" using Cons.IH by blast
      then have "c # cs = (c # p) @ k @ q" by simp
      then show ?thesis by blast
    qed
  next
    assume "\<exists>p q. c # cs = p @ k @ q"
    then obtain p q where pq: "c # cs = p @ k @ q" by blast
    show "py_in k (c # cs)"
    proof (cases p)
      case Nil
      with pq have "starts_with k (c # cs)" by (auto simp: starts_with_iff)
      then show ?thesis by simp
    next
      case (Cons a p')
      with pq have "cs = p' @ k @ q" by simp
      then have "py_in k cs" using Cons.IH by blast
      then show ?thesis by simp
    qed
  qed
qed

lemma py_in_longer: "py_in (k @ extra) s \<Longrightarrow> py_in k s"
proof -
  assume "py_in (k @ extra) s"
  then obtain p q where "s = p @ (k @ extra) @ q" by (auto simp: py_in_iff)
  then have "s = p @ k @ (extra @ q)" by simp
  then show ?thesis unfolding py_in_iff by blast
qed

section \<open>The scoring pipeline never raises in app.py\<close>

lemma assess_signal_cases:
  "assess_signal G v = Inr (''PROCESSING_ERROR'', 999) \<or>
   (\<exists>s. transform_and_score G v = Inr s \<and>
        assess_signal G v = Inr (if s < THREAT_THRESHOLD then ''THREAT'' else ''BENIGN'', s))"
  by (cases "transform_and_score G v") (simp_all add: assess_signal_def)

lemma assess_signal_returns: "\<exists>risk sc. assess_signal G v = Inr (risk, sc)"
  using assess_signal_cases [of G v] by auto

section \<open>The feature vector and the heuristic tier\<close>

lemma derive_features_tier:
  "derive_features B cn = Inr (fv, tier) \<Longrightarrow> tier \<in> {''LOW'', ''MILD'', ''HIGH''}"
  by (auto simp: derive_features_def Let_def split: sum.splits if_splits)

lemma derive_features_no_ssid:
  "cn ''SSID'' = None \<Longrightarrow> \<exists>fv tier. derive_features B cn = Inr (fv, tier)"
  by (simp add: derive_features_def Let_def dict_get_def lower_method_def split: if_splits)

lemma derive_features_string_ssid:
  "cn ''SSID'' = Some (JStr s) \<Longrightarrow> \<exists>fv tier. derive_features B cn = Inr (fv, tier)"
  by (simp add: derive_features_def Let_def dict_get_def lower_method_def split: if_splits)

lemma process_wifi_data_returns:
  assumes "cn ''SSID'' = Some (JStr s)"
  shows "\<exists>rep. process_wifi_data B G (cn # rest) = Inr rep"
proof -
  obtain fv tier where d: "derive_features B cn = Inr (fv, tier)"
    using assms derive_features_string_ssid [of cn s B] by blast
  obtain risk sc where a: "assess_signal G fv = Inr (risk, sc)"
    using assess_signal_returns by blast
  show ?thesis
    using assms by (simp add: process_wifi_data_def d a dict_index_def Let_def)
qed

section \<open>Properties of the distance estimate\<close>


lemma dbl_max_upper: "DBL_MAX < 18 * 10 ^ 307"
  by (simp add: DBL_MAX_def)


lemma root28_gt:
  assumes "0 \<le> c" and "c ^ 28 < (10::real) ^ a"
  shows "c < 10 powr (real a / 28)"
proof -
  have "(10 powr (real a / 28)) ^ 28 = (10::real) powr (real a / 28 * 28)"
    by (simp add: powr_power)
  also have "\<dots> = 10 ^ a"
    by (simp add: powr_realpow)
  finally have "c ^ 28 < (10 powr (real a / 28)) ^ 28"
    using assms(2) by simp
  then show ?thesis
    by (rule power_less_imp_less_base) simp
qed


lemma pow10_at_8691: "DBL_MAX < (10::real) powr (8632 / 28)"
proof -
  have "(18::real) < 10 powr (real 36 / 28)"
    by (rule root28_gt) simp_all
  then have a: "(18::real) < 10 powr (36 / 28)"
    by simp
  have "(10::real) powr (8632 / 28) = 10 powr (36 / 28 + 307)"
    by simp
  also have "\<dots> = 10 powr (36 / 28) * 10 powr 307"
    by (rule powr_add)
  also have "\<dots> = 10 powr (36 / 28) * 10 ^ 307"
    by simp
  finally have "18 * 10 ^ 307 < (10::real) powr (8632 / 28)"
    using a by simp
  then show ?thesis
    using dbl_max_upper by linarith
qed

lemma one_dbm_factor: "(108 / 100 :: real) \<le> 10 powr (1 / 28)"
proof -
  have "(108 / 100 :: real) < 10 powr (real 1 / 28)"
    by (rule root28_gt) (simp_all add: power_divide)
  then show ?thesis by simp
qed

lemma calculate_distance_near:
  "RSSI_AT_1M \<le> rssi \<Longrightarrow> calculate_distance rssi = Inr (1 / 10)"
  by (simp add: calculate_distance_def)

lemma calculate_distance_far:
  "rssi < RSSI_AT_1M \<Longrightarrow>
   calculate_distance rssi = float_pow10 ((RSSI_AT_1M - rssi) / (10 * PATH_LOSS_EXPONENT))"
  by (simp add: calculate_distance_def)

lemma calculate_distance_far_value:
  assumes "rssi < RSSI_AT_1M" and "calculate_distance rssi = Inr d"
  shows "d = 10 powr ((RSSI_AT_1M - rssi) / (10 * PATH_LOSS_EXPONENT)) \<and> d \<le> DBL_MAX"
  using assms by (auto simp: calculate_distance_far float_pow10_def split: if_splits)

lemma calculate_distance_far_gt_1:
  assumes "rssi < RSSI_AT_1M" and "calculate_distance rssi = Inr d"
  shows "1 < d"
proof -
  have "0 < (RSSI_AT_1M - rssi) / (10 * PATH_LOSS_EXPONENT)"
    using assms(1) by (simp add: PATH_LOSS_EXPONENT_def)
  then have "10 powr 0 < (10::real) powr ((RSSI_AT_1M - rssi) / (10 * PATH_LOSS_EXPONENT))"
    by (intro powr_less_mono) simp_all
  then show ?thesis
    using calculate_distance_far_value [OF assms] by simp
qed


lemma calculate_distance_raises:
  assumes "rssi \<le> - 8691"
  shows "calculate_distance rssi = Inl OverflowError"
proof -
  have far: "rssi < RSSI_AT_1M"
    using assms by (simp add: RSSI_AT_1M_def)
  have "8632 / 28 \<le> (RSSI_AT_1M - rssi) / (10 * PATH_LOSS_EXPONENT)"
    using assms by (simp add: RSSI_AT_1M_def PATH_LOSS_EXPONENT_def)
  then have "(10::real) powr (8632 / 28)
               \<le> 10 powr ((RSSI_AT_1M - rssi) / (10 * PATH_LOSS_EXPONENT))"
    by (intro powr_mono) simp_all
  then have "DBL_MAX < (10::real) powr ((RSSI_AT_1M - rssi) / (10 * PATH_LOSS_EXPONENT))"
    using pow10_at_8691 by linarith
  then show ?thesis
    using far by (simp add: calculate_distance_far float_pow10_def)
qed




text \<open>
  Claim C9, as stated, fails: for the pair -9000 < -100 below the reference the estimate
  at -9000 dBm raises OverflowError, so it is not a distance greater than the estimate at
  -100 dBm.
\<close>

theorem calculate_distance_order_counterexample:
  "(- 9000 :: real) < - 100 \<and> (- 100 :: real) < RSSI_AT_1M \<and>
   calculate_distance (- 9000) = Inl OverflowError \<and>
   calculate_distance (- 100) = Inr (10 powr (41 / 28))"
proof -
  have "(10::real) powr (41 / 28) \<le> 10 powr 2"
    by (intro powr_mono) simp_all
  also have "\<dots> \<le> DBL_MAX"
    by (simp add: DBL_MAX_def)
  finally have "calculate_distance (- 100) = Inr (10 powr (41 / 28))"
    by (simp add: calculate_distance_def float_pow10_def RSSI_AT_1M_def PATH_LOSS_EXPONENT_def)
  then show ?thesis
    by (simp add: calculate_distance_raises) (simp add: RSSI_AT_1M_def)
qed

text \<open>
  Claim C9, as it holds. For r1 < r2 below the reference value, whenever the estimate at
  r1 returns, the estimate at r2 returns too and is not larger: the distance never
  decreases as the RSSI decreases. For readings at least 1 dBm apart the estimate at r1
  is larger by a factor of at least 1.08, hence strictly larger. The values of the model
  are exact; a double is the nearest value to them, so for inputs closer than rounding
  resolves only the weak order is stated.
\<close>

theorem calculate_distance_antitone:
  assumes "r1 < r2" and "r2 < RSSI_AT_1M" and "calculate_distance r1 = Inr d1"
  shows "\<exists>d2. calculate_distance r2 = Inr d2 \<and> d2 \<le> d1 \<and>
              (r1 + 1 \<le> r2 \<longrightarrow> 1.08 * d2 \<le> d1 \<and> d2 < d1)"
proof -
  let ?p1 = "(RSSI_AT_1M - r1) / (10 * PATH_LOSS_EXPONENT)"
  let ?p2 = "(RSSI_AT_1M - r2) / (10 * PATH_LOSS_EXPONENT)"
  have far1: "r1 < RSSI_AT_1M" using assms(1,2) by simp
  have d1: "d1 = 10 powr ?p1" and b1: "d1 \<le> DBL_MAX"
    using calculate_distance_far_value [OF far1 assms(3)] by simp_all
  have p: "?p2 < ?p1"
    using assms(1) by (simp add: PATH_LOSS_EXPONENT_def divide_strict_right_mono)
  then have lt: "(10::real) powr ?p2 < 10 powr ?p1"
    by (intro powr_less_mono) simp_all
  then have "(10::real) powr ?p2 \<le> DBL_MAX"
    using d1 b1 by linarith
  then have r2: "calculate_distance r2 = Inr (10 powr ?p2)"
    using assms(2) by (simp add: calculate_distance_far float_pow10_def)
  have gap: "1.08 * 10 powr ?p2 \<le> d1 \<and> 10 powr ?p2 < d1" if "r1 + 1 \<le> r2"
  proof -
    have "?p2 + 1 / 28 \<le> ?p1"
      using that by (simp add: PATH_LOSS_EXPONENT_def field_simps)
    then have "(10::real) powr (?p2 + 1 / 28) \<le> 10 powr ?p1"
      by (intro powr_mono) simp_all
    then have A: "10 powr ?p2 * (10::real) powr (1 / 28) \<le> d1"
      by (simp add: powr_add d1)
    have B: "10 powr ?p2 * (108 / 100) \<le> 10 powr ?p2 * (10::real) powr (1 / 28)"
      using one_dbm_factor by (intro mult_left_mono) simp_all
    from A B have "10 powr ?p2 * (108 / 100) \<le> d1" by linarith
    then have "1.08 * 10 powr ?p2 \<le> d1" by simp
    then show ?thesis using lt d1 by simp
  qed
  show ?thesis
    using r2 lt d1 gap by auto
qed

theorem calculate_distance_antitone_witness:
  "(- 115::real) < - 87 \<and> (- 87::real) < RSSI_AT_1M \<and>
   calculate_distance (- 115) = Inr 100 \<and> calculate_distance (- 87) = Inr 10 \<and>
   (10::real) \<le> 100 \<and> (- 115::real) + 1 \<le> - 87 \<and> 1.08 * (10::real) \<le> 100"
proof -
  have a: "(- 115::real) < - 87" by simp
  have b: "(- 87::real) < RSSI_AT_1M" by (simp add: RSSI_AT_1M_def)
  have "calculate_distance (- 115) = Inr (10 powr 2)"
    by (simp add: calculate_distance_def float_pow10_def RSSI_AT_1M_def PATH_LOSS_EXPONENT_def
        DBL_MAX_def)
  then have c: "calculate_distance (- 115) = Inr 100" by simp
  from calculate_distance_antitone [OF a b c]
  obtain d2 where d: "calculate_distance (- 87) = Inr d2" "d2 \<le> 100"
    "- 115 + 1 \<le> (- 87::real) \<longrightarrow> 1.08 * d2 \<le> 100 \<and> d2 < 100"
    by blast
  have "calculate_distance (- 87) = Inr 10"
    by (simp add: calculate_distance_def float_pow10_def RSSI_AT_1M_def PATH_LOSS_EXPONENT_def
        DBL_MAX_def)
  then show ?thesis using a b c d by simp
qed


section \<open>Claims about the Wi-Fi resolver\<close>

text \<open>
  Claim C3. On the empty network list \<open>process_wifi_data\<close> returns the sentinel report:
  result "NO_NETWORKS_FOUND", score 0.0, five features of -1.0, ssid "N/A", no networks
  and tier LOW. The result is the same for all artifacts, loaded or not, raising or
  not: the scoring pipeline has no part in it.
\<close>

theorem process_wifi_data_empty:
  "process_wifi_data B G [] =
     Inr \<lparr>result = ''NO_NETWORKS_FOUND'', score = 0,
          raw_features = [- 1, - 1, - 1, - 1, - 1], ssid = JStr ''N/A'', networks = [],
          threat_tier = ''LOW''\<rparr>"
  by (simp add: process_wifi_data_def no_networks_report_def numeral_eq_Suc)

theorem process_wifi_data_empty_witness:
  "process_wifi_data sample_builtins broken_artifacts [] =
     Inr \<lparr>result = ''NO_NETWORKS_FOUND'', score = 0,
          raw_features = [- 1, - 1, - 1, - 1, - 1], ssid = JStr ''N/A'', networks = [],
          threat_tier = ''LOW''\<rparr> \<and>
   process_wifi_data sample_builtins no_artifacts [] =
     process_wifi_data sample_builtins alarmed_artifacts []"
  using process_wifi_data_empty [of sample_builtins broken_artifacts]
    process_wifi_data_empty [of sample_builtins no_artifacts]
    process_wifi_data_empty [of sample_builtins alarmed_artifacts]
  by simp

text \<open>
  Claim C10. When the first record of a non-empty list has no key 'SSID',
  \<open>process_wifi_data\<close> raises KeyError instead of returning a report, whatever the other
  fields, the rest of the list and the artifacts are. The other fields are read with
  defaults: a first record whose 'SSID' is a string gives a report even when every other
  key is absent.
\<close>

theorem process_wifi_data_missing_ssid:
  "(cn ''SSID'' = None \<longrightarrow> process_wifi_data B G (cn # rest) = Inl KeyError) \<and>
   (\<exists>rep. process_wifi_data B G ([''SSID'' \<mapsto> JStr s] # rest) = Inr rep)"
proof
  show "cn ''SSID'' = None \<longrightarrow> process_wifi_data B G (cn # rest) = Inl KeyError"
  proof
    assume none: "cn ''SSID'' = None"
    obtain fv tier where d: "derive_features B cn = Inr (fv, tier)"
      using derive_features_no_ssid [of cn B] none by blast
    obtain risk sc where a: "assess_signal G fv = Inr (risk, sc)"
      using assess_signal_returns by blast
    show "process_wifi_data B G (cn # rest) = Inl KeyError"
      by (simp add: process_wifi_data_def d a none dict_index_def Let_def)
  qed
  show "\<exists>rep. process_wifi_data B G ([''SSID'' \<mapsto> JStr s] # rest) = Inr rep"
    by (rule process_wifi_data_returns [of _ s]) simp
qed

theorem process_wifi_data_missing_ssid_witness:
  "nameless_network ''SSID'' = None \<and>
   process_wifi_data sample_builtins calm_artifacts [nameless_network, home_network]
     = Inl KeyError"
proof -
  have none: "nameless_network ''SSID'' = None"
    by (simp add: nameless_network_def)
  show ?thesis
    using none
      process_wifi_data_missing_ssid
        [of nameless_network sample_builtins calm_artifacts "[home_network]"]
    by simp
qed

text \<open>
  Claim C1. Whenever \<open>process_wifi_data\<close> returns a report for a non-empty list, the
  report's result is the risk level that \<open>assess_signal\<close> gives for the feature vector
  derived from the first record; if that level is THREAT the report's tier is CRITICAL,
  whichever of LOW, MILD and HIGH the security and SSID rules had chosen, and otherwise the
  tier is the one those rules chose.
\<close>

theorem threat_overrides_heuristic_tier:
  assumes "process_wifi_data B G (cn # rest) = Inr rep"
  shows "\<exists>fv tier sc.
           derive_features B cn = Inr (fv, tier) \<and>
           assess_signal G fv = Inr (result rep, sc) \<and>
           tier \<in> {''LOW'', ''MILD'', ''HIGH''} \<and>
           (result rep = ''THREAT'' \<longrightarrow> threat_tier rep = ''CRITICAL'') \<and>
           (result rep \<noteq> ''THREAT'' \<longrightarrow> threat_tier rep = tier)"
proof -
  obtain fv tier where d: "derive_features B cn = Inr (fv, tier)"
    using assms by (auto simp: process_wifi_data_def split: sum.splits)
  obtain risk sc where a: "assess_signal G fv = Inr (risk, sc)"
    using assess_signal_returns by blast
  obtain sv where s: "cn ''SSID'' = Some sv"
    using assms by (cases "cn ''SSID''") (auto simp: process_wifi_data_def d a dict_index_def Let_def)
  have rep: "rep = \<lparr>result = risk, score = sc, raw_features = fv, ssid = sv,
                    networks = cn # rest,
                    threat_tier = (if risk = ''THREAT'' then ''CRITICAL'' else tier)\<rparr>"
    using assms by (simp add: process_wifi_data_def d a s dict_index_def Let_def)
  have t: "tier \<in> {''LOW'', ''MILD'', ''HIGH''}"
    using d by (rule derive_features_tier)
  have r: "result rep = risk" and tt: "threat_tier rep = (if risk = ''THREAT'' then ''CRITICAL'' else tier)"
    by (simp_all add: rep)
  show ?thesis
    using d a t r tt by auto
qed

lemma derive_features_home:
  "derive_features sample_builtins home_network = Inr ([- 44, 15 / 10, 10, 9, 0], ''LOW'')"
  by (simp add: derive_features_def home_network_def sample_eval string_eval)

lemma derive_features_airport:
  "derive_features sample_builtins airport_network = Inr ([- 65, 5, 30, 7, 0], ''MILD'')"
  by (simp add: derive_features_def airport_network_def sample_eval string_eval)

lemma derive_features_unknown_open:
  "derive_features sample_builtins unknown_open_network = Inr ([- 37, 25, 150, 1, 1], ''HIGH'')"
  by (simp add: derive_features_def unknown_open_network_def sample_eval string_eval)

lemma assess_signal_alarmed: "assess_signal alarmed_artifacts v = Inr (''THREAT'', - 1 / 2)"
  by (simp add: assess_signal_def alarmed_artifacts_def artifact_eval)

lemma assess_signal_calm: "assess_signal calm_artifacts v = Inr (''BENIGN'', 1 / 4)"
  by (simp add: assess_signal_def calm_artifacts_def artifact_eval)

lemma process_home_alarmed:
  "process_wifi_data sample_builtins alarmed_artifacts [home_network] =
     Inr \<lparr>result = ''THREAT'', score = - 1 / 2, raw_features = [- 44, 15 / 10, 10, 9, 0],
          ssid = JStr ''HomeNet'', networks = [home_network], threat_tier = ''CRITICAL''\<rparr>"
  by (simp add: process_wifi_data_def derive_features_home assess_signal_alarmed dict_index_def)
     (simp add: home_network_def dict_index_def)

lemma process_unknown_open_calm:
  "process_wifi_data sample_builtins calm_artifacts [unknown_open_network] =
     Inr \<lparr>result = ''BENIGN'', score = 1 / 4, raw_features = [- 37, 25, 150, 1, 1],
          ssid = JStr ''xyz123'', networks = [unknown_open_network], threat_tier = ''HIGH''\<rparr>"
  by (simp add: process_wifi_data_def derive_features_unknown_open assess_signal_calm dict_index_def)
     (simp add: unknown_open_network_def dict_index_def)

theorem threat_overrides_heuristic_tier_witness:
  "process_wifi_data sample_builtins alarmed_artifacts [home_network] =
     Inr \<lparr>result = ''THREAT'', score = - 1 / 2, raw_features = [- 44, 15 / 10, 10, 9, 0],
          ssid = JStr ''HomeNet'', networks = [home_network], threat_tier = ''CRITICAL''\<rparr> \<and>
   derive_features sample_builtins home_network = Inr ([- 44, 15 / 10, 10, 9, 0], ''LOW'') \<and>
   assess_signal alarmed_artifacts [- 44, 15 / 10, 10, 9, 0] = Inr (''THREAT'', - 1 / 2) \<and>
   process_wifi_data sample_builtins calm_artifacts [unknown_open_network] =
     Inr \<lparr>result = ''BENIGN'', score = 1 / 4, raw_features = [- 37, 25, 150, 1, 1],
          ssid = JStr ''xyz123'', networks = [unknown_open_network], threat_tier = ''HIGH''\<rparr> \<and>
   derive_features sample_builtins unknown_open_network = Inr ([- 37, 25, 150, 1, 1], ''HIGH'')"
proof -
  from threat_overrides_heuristic_tier [OF process_home_alarmed]
  obtain fv tier sc where
    "derive_features sample_builtins home_network = Inr (fv, tier)"
    "assess_signal alarmed_artifacts fv = Inr (''THREAT'', sc)"
    by auto
  then have 1: "derive_features sample_builtins home_network = Inr ([- 44, 15 / 10, 10, 9, 0], ''LOW'')"
    and 2: "assess_signal alarmed_artifacts [- 44, 15 / 10, 10, 9, 0] = Inr (''THREAT'', - 1 / 2)"
    by (simp_all add: derive_features_home assess_signal_alarmed)
  from threat_overrides_heuristic_tier [OF process_unknown_open_calm]
  obtain fv' tier' sc' where
    "derive_features sample_builtins unknown_open_network = Inr (fv', tier')"
    by auto
  then have 3: "derive_features sample_builtins unknown_open_network = Inr ([- 37, 25, 150, 1, 1], ''HIGH'')"
    by (simp add: derive_features_unknown_open)
  show ?thesis
    using 1 2 3 process_home_alarmed process_unknown_open_calm by simp
qed

text \<open>
  Claim C7. For a first record whose SSID is absent or a string, the feature vector is
  [rssi_mean, variance, probe rate, trust, flag] with
  rssi_mean = -100 + 0.7 * signal_percent, where signal_percent is \<open>float\<close> of the
  'Signal (%)' field (default '70%') with every '%' removed and white space stripped, and
  70.0 when \<open>float\<close> raises ValueError. The other four features and the tier follow the
  case: secure (the lower-cased 'Authentication' field contains wpa, wpa2 or wpa3) gives
  (1.5, 10, 9, 0) and LOW; open with a public keyword in the lower-cased SSID gives
  (5.0, 30, 7, 0) and MILD; open otherwise gives (25.0, 150, 1, 1) and HIGH. A report
  carries exactly this vector, whatever the artifacts and the later records are. For a
  secure network at 80 percent the vector is [-44.0, 1.5, 10, 9, 0].
\<close>

theorem derive_features_profile:
  assumes "lower_method (dict_get cn ''SSID'' (JStr '''')) = Inr ssid_value"
  shows "\<exists>variance rate trust flag tier.
     derive_features B cn =
       Inr ([- 100 + 0.7 *
               (case py_float B (py_strip (remove_percent
                       (py_str B (dict_get cn ''Signal (%)'' (JStr ''70%''))))) of
                  Some x \<Rightarrow> x | None \<Rightarrow> 70),
             variance, rate, trust, flag], tier) \<and>
     (let security_value =
            py_lower (py_str B (dict_get cn ''Authentication'' (JStr ''N/A'')));
          is_secure = (py_in ''wpa'' security_value \<or> py_in ''wpa2'' security_value
                         \<or> py_in ''wpa3'' security_value);
          is_public = list_ex (\<lambda>k. py_in k ssid_value)
                        [''guest'', ''free'', ''public'', ''cafe'', ''airport'', ''hotel'']
      in (is_secure \<longrightarrow>
            (variance, rate, trust, flag, tier) = (1.5, 10, 9, 0, ''LOW'')) \<and>
         (\<not> is_secure \<and> is_public \<longrightarrow>
            (variance, rate, trust, flag, tier) = (5, 30, 7, 0, ''MILD'')) \<and>
         (\<not> is_secure \<and> \<not> is_public \<longrightarrow>
            (variance, rate, trust, flag, tier) = (25, 150, 1, 1, ''HIGH''))) \<and>
     (\<forall>G rest rep. process_wifi_data B G (cn # rest) = Inr rep \<longrightarrow>
        raw_features rep =
          [- 100 + 0.7 *
               (case py_float B (py_strip (remove_percent
                       (py_str B (dict_get cn ''Signal (%)'' (JStr ''70%''))))) of
                  Some x \<Rightarrow> x | None \<Rightarrow> 70),
           variance, rate, trust, flag]) \<and>
     (py_float B ''80'' = Some 80 \<longrightarrow>
        derive_features B home_network = Inr ([- 44, 1.5, 10, 9, 0], ''LOW''))"
proof -
  define sp where "sp =
     (case py_float B (py_strip (remove_percent
             (py_str B (dict_get cn ''Signal (%)'' (JStr ''70%''))))) of
        Some x \<Rightarrow> x | None \<Rightarrow> (70::real))"
  define security_value where
    "security_value = py_lower (py_str B (dict_get cn ''Authentication'' (JStr ''N/A'')))"
  define is_secure where
    "is_secure = (py_in ''wpa'' security_value \<or> py_in ''wpa2'' security_value
                         \<or> py_in ''wpa3'' security_value)"
  define is_public where
    "is_public = list_ex (\<lambda>k. py_in k ssid_value)
                        [''guest'', ''free'', ''public'', ''cafe'', ''airport'', ''hotel'']"
  define prof :: "real \<times> real \<times> real \<times> real \<times> string" where
    "prof = (if is_secure then (15 / 10, 10, 9, 0, ''LOW'')
             else if is_public then (5, 30, 7, 0, ''MILD'')
             else (25, 150, 1, 1, ''HIGH''))"
  obtain variance rate trust flag tier where p: "prof = (variance, rate, trust, flag, tier)"
    by (cases prof) auto
  have d: "derive_features B cn = Inr ([- 100 + 0.7 * sp, variance, rate, trust, flag], tier)"
    using p assms
    by (auto simp: derive_features_def Let_def prof_def is_secure_def is_public_def
          security_value_def sp_def public_keywords_def split: if_splits)
  have c: "(is_secure \<longrightarrow> (variance, rate, trust, flag, tier) = (1.5, 10, 9, 0, ''LOW'')) \<and>
         (\<not> is_secure \<and> is_public \<longrightarrow>
            (variance, rate, trust, flag, tier) = (5, 30, 7, 0, ''MILD'')) \<and>
         (\<not> is_secure \<and> \<not> is_public \<longrightarrow>
            (variance, rate, trust, flag, tier) = (25, 150, 1, 1, ''HIGH''))"
    using p by (auto simp: prof_def split: if_splits)
  have r: "\<forall>G rest rep. process_wifi_data B G (cn # rest) = Inr rep \<longrightarrow>
        raw_features rep = [- 100 + 0.7 * sp, variance, rate, trust, flag]"
    by (auto simp: process_wifi_data_def d Let_def split: sum.splits prod.splits)
  have e: "py_float B ''80'' = Some 80 \<longrightarrow>
        derive_features B home_network = Inr ([- 44, 1.5, 10, 9, 0], ''LOW'')"
    by (simp add: derive_features_def home_network_def dict_get_def py_str_def
        lower_method_def public_keywords_def string_eval)
  show ?thesis
    using d c r e
    unfolding sp_def [symmetric] Let_def security_value_def [symmetric]
      is_secure_def [symmetric] is_public_def [symmetric]
    by blast
qed

theorem derive_features_profile_witness:
  "lower_method (dict_get home_network ''SSID'' (JStr '''')) = Inr ''homenet'' \<and>
   py_float sample_builtins ''80'' = Some 80 \<and>
   derive_features sample_builtins home_network = Inr ([- 44, 1.5, 10, 9, 0], ''LOW'') \<and>
   lower_method (dict_get airport_network ''SSID'' (JStr '''')) = Inr ''free airport wifi'' \<and>
   derive_features sample_builtins airport_network = Inr ([- 65, 5, 30, 7, 0], ''MILD'') \<and>
   lower_method (dict_get unknown_open_network ''SSID'' (JStr '''')) = Inr ''xyz123'' \<and>
   derive_features sample_builtins unknown_open_network = Inr ([- 37, 25, 150, 1, 1], ''HIGH'')"
proof -
  have h1: "lower_method (dict_get home_network ''SSID'' (JStr '''')) = Inr ''homenet''"
    by (simp add: home_network_def sample_eval string_eval)
  have f: "py_float sample_builtins ''80'' = Some 80"
    by (simp add: sample_eval)
  have "py_float sample_builtins ''80'' = Some 80 \<longrightarrow>
        derive_features sample_builtins home_network = Inr ([- 44, 1.5, 10, 9, 0], ''LOW'')"
    using derive_features_profile [OF h1, of sample_builtins] by blast
  then have d1: "derive_features sample_builtins home_network = Inr ([- 44, 1.5, 10, 9, 0], ''LOW'')"
    using f by simp
  have h2: "lower_method (dict_get airport_network ''SSID'' (JStr '''')) = Inr ''free airport wifi''"
    by (simp add: airport_network_def sample_eval string_eval)
  from derive_features_profile [OF h2, of sample_builtins]
  obtain variance rate trust flag tier where
    v2: "derive_features sample_builtins airport_network =
       Inr ([- 100 + 0.7 *
               (case py_float sample_builtins (py_strip (remove_percent
                       (py_str sample_builtins
                          (dict_get airport_network ''Signal (%)'' (JStr ''70%''))))) of
                  Some x \<Rightarrow> x | None \<Rightarrow> 70),
             variance, rate, trust, flag], tier)"
    and c2: "(let security_value =
            py_lower (py_str sample_builtins
                        (dict_get airport_network ''Authentication'' (JStr ''N/A'')));
          is_secure = (py_in ''wpa'' security_value \<or> py_in ''wpa2'' security_value
                         \<or> py_in ''wpa3'' security_value);
          is_public = list_ex (\<lambda>k. py_in k ''free airport wifi'')
                        [''guest'', ''free'', ''public'', ''cafe'', ''airport'', ''hotel'']
      in (is_secure \<longrightarrow>
            (variance, rate, trust, flag, tier) = (1.5, 10, 9, 0, ''LOW'')) \<and>
         (\<not> is_secure \<and> is_public \<longrightarrow>
            (variance, rate, trust, flag, tier) = (5, 30, 7, 0, ''MILD'')) \<and>
         (\<not> is_secure \<and> \<not> is_public \<longrightarrow>
            (variance, rate, trust, flag, tier) = (25, 150, 1, 1, ''HIGH'')))"
    by blast
  have "(variance, rate, trust, flag, tier) = (5, 30, 7, 0, ''MILD'')"
    using c2 by (simp add: airport_network_def sample_eval string_eval)
  then have d2: "derive_features sample_builtins airport_network = Inr ([- 65, 5, 30, 7, 0], ''MILD'')"
    using v2 by (simp add: airport_network_def sample_eval string_eval)
  have h3: "lower_method (dict_get unknown_open_network ''SSID'' (JStr '''')) = Inr ''xyz123''"
    by (simp add: unknown_open_network_def sample_eval string_eval)
  from derive_features_profile [OF h3, of sample_builtins]
  obtain variance' rate' trust' flag' tier' where
    v3: "derive_features sample_builtins unknown_open_network =
       Inr ([- 100 + 0.7 *
               (case py_float sample_builtins (py_strip (remove_percent
                       (py_str sample_builtins
                          (dict_get unknown_open_network ''Signal (%)'' (JStr ''70%''))))) of
                  Some x \<Rightarrow> x | None \<Rightarrow> 70),
             variance', rate', trust', flag'], tier')"
    and c3: "(let security_value =
            py_lower (py_str sample_builtins
                        (dict_get unknown_open_network ''Authentication'' (JStr ''N/A'')));
          is_secure = (py_in ''wpa'' security_value \<or> py_in ''wpa2'' security_value
                         \<or> py_in ''wpa3'' security_value);
          is_public = list_ex (\<lambda>k. py_in k ''xyz123'')
                        [''guest'', ''free'', ''public'', ''cafe'', ''airport'', ''hotel'']
      in (is_secure \<longrightarrow>
            (variance', rate', trust', flag', tier') = (1.5, 10, 9, 0, ''LOW'')) \<and>
         (\<not> is_secure \<and> is_public \<longrightarrow>
            (variance', rate', trust', flag', tier') = (5, 30, 7, 0, ''MILD'')) \<and>
         (\<not> is_secure \<and> \<not> is_public \<longrightarrow>
            (variance', rate', trust', flag', tier') = (25, 150, 1, 1, ''HIGH'')))"
    by blast
  have "(variance', rate', trust', flag', tier') = (25, 150, 1, 1, ''HIGH'')"
    using c3 by (simp add: unknown_open_network_def sample_eval string_eval)
  then have d3: "derive_features sample_builtins unknown_open_network =
      Inr ([- 37, 25, 150, 1, 1], ''HIGH'')"
    using v3 by (simp add: unknown_open_network_def sample_eval string_eval)
  show ?thesis
    using h1 f d1 h2 d2 h3 d3 by simp
qed

section \<open>Claims about the Bluetooth resolver\<close>

lemma status_of_assessment:
  assumes "calculate_distance rssi = Inr d"
  shows "\<exists>dev. assess_bluetooth_threat rssi cls name = Inr dev \<and>
           dev ''status'' =
             Some (JStr (fst (threat_level_and_description d cls (py_lower name))))"
  using assms by (simp add: assess_bluetooth_threat_def Let_def split: prod.splits)

lemma status_of_device:
  assumes "assess_bluetooth_threat rssi (get_major_class_from_name name) name = Inr dev"
  shows "\<exists>dev'. assess_device (address, name, rssi) = Inr dev' \<and>
           dev' ''status'' = dev ''status''"
  using assms by (simp add: assess_device_def Let_def)

lemma audio_video_class_iff:
  "get_major_class_from_name name = MAJOR_CLASS_AUDIO_VIDEO \<longleftrightarrow>
     py_in ''mic'' (py_lower name) \<or> py_in ''headset'' (py_lower name)
       \<or> py_in ''speaker'' (py_lower name)"
  by (auto simp: get_major_class_from_name_def Let_def MAJOR_CLASS_AUDIO_VIDEO_def
        MAJOR_CLASS_PHONE_def py_lower_def)

lemma distance_close_iff:
  "(\<exists>d. calculate_distance rssi = Inr d \<and> d < 5 / 10) \<longleftrightarrow> RSSI_AT_1M \<le> rssi"
proof (cases "RSSI_AT_1M \<le> rssi")
  case True
  then have "calculate_distance rssi = Inr (1 / 10) \<and> (1 / 10 :: real) < 5 / 10"
    by (simp add: calculate_distance_near)
  with True show ?thesis by blast
next
  case False
  then have "1 < d" if "calculate_distance rssi = Inr d" for d
    using that by (intro calculate_distance_far_gt_1 [of rssi]) simp_all
  with False show ?thesis by fastforce
qed

text \<open>
  Claim C6. The first row of the tiering table wins: when the estimated distance is below
  0.5 and the class code is audio/video, or the lower-cased name contains "sniffer" or
  "mic", the assessment returns with status CRITICAL. The class code that the scan
  derives from the name is audio/video exactly when the lower-cased name contains "mic",
  "headset" or "speaker". A device named "Wireless Mic" seen at -40 dBm is at distance
  0.1 and gets CRITICAL.
\<close>

theorem close_audio_or_sniffer_is_critical:
  "((\<exists>d. calculate_distance rssi = Inr d \<and> d < 0.5) \<and>
      (cls = MAJOR_CLASS_AUDIO_VIDEO \<or> py_in ''sniffer'' (py_lower name)
         \<or> py_in ''mic'' (py_lower name)) \<longrightarrow>
      (\<exists>dev. assess_bluetooth_threat rssi cls name = Inr dev \<and>
             dev ''status'' = Some (JStr ''CRITICAL''))) \<and>
   ((\<exists>d. calculate_distance rssi = Inr d \<and> d < 0.5) \<and>
      (py_in ''mic'' (py_lower name) \<or> py_in ''headset'' (py_lower name)
         \<or> py_in ''speaker'' (py_lower name) \<or> py_in ''sniffer'' (py_lower name)) \<longrightarrow>
      (\<exists>dev. assess_device (address, name, rssi) = Inr dev \<and>
             dev ''status'' = Some (JStr ''CRITICAL''))) \<and>
   (get_major_class_from_name name = MAJOR_CLASS_AUDIO_VIDEO \<longleftrightarrow>
      py_in ''mic'' (py_lower name) \<or> py_in ''headset'' (py_lower name)
        \<or> py_in ''speaker'' (py_lower name)) \<and>
   calculate_distance (- 40) = Inr 0.1 \<and>
   (\<exists>dev. assess_device (address, ''Wireless Mic'', - 40) = Inr dev \<and>
          dev ''status'' = Some (JStr ''CRITICAL''))"
proof -
  have a: "(\<exists>d. calculate_distance rssi = Inr d \<and> d < 0.5) \<and>
      (cls = MAJOR_CLASS_AUDIO_VIDEO \<or> py_in ''sniffer'' (py_lower name)
         \<or> py_in ''mic'' (py_lower name)) \<longrightarrow>
      (\<exists>dev. assess_bluetooth_threat rssi cls name = Inr dev \<and>
             dev ''status'' = Some (JStr ''CRITICAL''))" for cls rssi name
  proof
    assume h: "(\<exists>d. calculate_distance rssi = Inr d \<and> d < 0.5) \<and>
      (cls = MAJOR_CLASS_AUDIO_VIDEO \<or> py_in ''sniffer'' (py_lower name)
         \<or> py_in ''mic'' (py_lower name))"
    then obtain d where d: "calculate_distance rssi = Inr d" "d < 0.5" by blast
    have "fst (threat_level_and_description d cls (py_lower name)) = ''CRITICAL''"
      using h d(2) by (auto simp: threat_level_and_description_def)
    then show "\<exists>dev. assess_bluetooth_threat rssi cls name = Inr dev \<and>
             dev ''status'' = Some (JStr ''CRITICAL'')"
      using status_of_assessment [OF d(1), of cls name] by auto
  qed
  have b: "(\<exists>d. calculate_distance rssi = Inr d \<and> d < 0.5) \<and>
      (py_in ''mic'' (py_lower name) \<or> py_in ''headset'' (py_lower name)
         \<or> py_in ''speaker'' (py_lower name) \<or> py_in ''sniffer'' (py_lower name)) \<longrightarrow>
      (\<exists>dev. assess_device (address, name, rssi) = Inr dev \<and>
             dev ''status'' = Some (JStr ''CRITICAL''))" for rssi name
  proof
    assume h: "(\<exists>d. calculate_distance rssi = Inr d \<and> d < 0.5) \<and>
      (py_in ''mic'' (py_lower name) \<or> py_in ''headset'' (py_lower name)
         \<or> py_in ''speaker'' (py_lower name) \<or> py_in ''sniffer'' (py_lower name))"
    then have "get_major_class_from_name name = MAJOR_CLASS_AUDIO_VIDEO
         \<or> py_in ''sniffer'' (py_lower name) \<or> py_in ''mic'' (py_lower name)"
      using audio_video_class_iff [of name] by blast
    with h obtain dev where
      dev: "assess_bluetooth_threat rssi (get_major_class_from_name name) name = Inr dev"
        "dev ''status'' = Some (JStr ''CRITICAL'')"
      using a [of rssi "get_major_class_from_name name" name] by blast
    then show "\<exists>dev. assess_device (address, name, rssi) = Inr dev \<and>
             dev ''status'' = Some (JStr ''CRITICAL'')"
      using status_of_device [OF dev(1), of address] by auto
  qed
  have d: "calculate_distance (- 40) = Inr 0.1"
    by (simp add: calculate_distance_def RSSI_AT_1M_def)
  have m: "py_in ''mic'' (py_lower ''Wireless Mic'')"
    by (simp add: string_eval)
  have c: "\<exists>d. calculate_distance (- 40) = Inr d \<and> d < 0.5"
    by (rule exI [of _ "1 / 10"]) (simp add: d)
  have e: "\<exists>dev. assess_device (address, ''Wireless Mic'', - 40) = Inr dev \<and>
          dev ''status'' = Some (JStr ''CRITICAL'')"
    using b [of "- 40" "''Wireless Mic''"] c m by blast
  show ?thesis
    using a b audio_video_class_iff d e by blast
qed

theorem close_audio_or_sniffer_is_critical_witness:
  "calculate_distance (- 40) = Inr 0.1 \<and> (0.1::real) < 0.5 \<and>
   py_in ''mic'' (py_lower ''Wireless Mic'') \<and>
   get_major_class_from_name ''Wireless Mic'' = MAJOR_CLASS_AUDIO_VIDEO \<and>
   map_sum id (\<lambda>dev. dev ''status'')
     (assess_bluetooth_threat (- 40) MAJOR_CLASS_AUDIO_VIDEO ''Wireless Mic'')
     = Inr (Some (JStr ''CRITICAL'')) \<and>
   py_in ''sniffer'' (py_lower ''BLE Sniffer'') \<and>
   get_major_class_from_name ''BLE Sniffer'' = MAJOR_CLASS_PHONE \<and>
   map_sum id (\<lambda>dev. dev ''status'')
     (assess_bluetooth_threat (- 50) MAJOR_CLASS_PHONE ''BLE Sniffer'')
     = Inr (Some (JStr ''CRITICAL'')) \<and>
   map_sum id (\<lambda>dev. dev ''status'') (assess_device (''AA:BB'', ''JBL Speaker'', - 59))
     = Inr (Some (JStr ''CRITICAL''))"
proof -
  have d1: "\<exists>d. calculate_distance (- 40) = Inr d \<and> d < 0.5"
    by (rule exI [of _ "1 / 10"]) (simp add: calculate_distance_def RSSI_AT_1M_def)
  have d2: "\<exists>d. calculate_distance (- 50) = Inr d \<and> d < 0.5"
    by (rule exI [of _ "1 / 10"]) (simp add: calculate_distance_def RSSI_AT_1M_def)
  have d3: "\<exists>d. calculate_distance (- 59) = Inr d \<and> d < 0.5"
    by (rule exI [of _ "1 / 10"]) (simp add: calculate_distance_def RSSI_AT_1M_def)
  have v: "calculate_distance (- 40) = Inr 0.1"
    by (simp add: calculate_distance_def RSSI_AT_1M_def)
  have m: "py_in ''mic'' (py_lower ''Wireless Mic'')"
    by (simp add: string_eval)
  have s: "py_in ''sniffer'' (py_lower ''BLE Sniffer'')"
    by (simp add: string_eval)
  have k: "py_in ''speaker'' (py_lower ''JBL Speaker'')"
    by (simp add: string_eval)
  have c1: "get_major_class_from_name ''Wireless Mic'' = MAJOR_CLASS_AUDIO_VIDEO"
    using close_audio_or_sniffer_is_critical [of _ _ "''Wireless Mic''"] m by blast
  have c2: "get_major_class_from_name ''BLE Sniffer'' = MAJOR_CLASS_PHONE"
    by (simp add: get_major_class_from_name_def string_eval)
  have "\<exists>dev. assess_bluetooth_threat (- 40) MAJOR_CLASS_AUDIO_VIDEO ''Wireless Mic'' = Inr dev \<and>
             dev ''status'' = Some (JStr ''CRITICAL'')"
    using close_audio_or_sniffer_is_critical
      [of "- 40" MAJOR_CLASS_AUDIO_VIDEO "''Wireless Mic''"] d1
    by blast
  then have r1: "map_sum id (\<lambda>dev. dev ''status'')
     (assess_bluetooth_threat (- 40) MAJOR_CLASS_AUDIO_VIDEO ''Wireless Mic'')
     = Inr (Some (JStr ''CRITICAL''))"
    by auto
  have "\<exists>dev. assess_bluetooth_threat (- 50) MAJOR_CLASS_PHONE ''BLE Sniffer'' = Inr dev \<and>
             dev ''status'' = Some (JStr ''CRITICAL'')"
    using close_audio_or_sniffer_is_critical
      [of "- 50" MAJOR_CLASS_PHONE "''BLE Sniffer''"] d2 s
    by blast
  then have r2: "map_sum id (\<lambda>dev. dev ''status'')
     (assess_bluetooth_threat (- 50) MAJOR_CLASS_PHONE ''BLE Sniffer'')
     = Inr (Some (JStr ''CRITICAL''))"
    by auto
  have "\<exists>dev. assess_device (''AA:BB'', ''JBL Speaker'', - 59) = Inr dev \<and>
             dev ''status'' = Some (JStr ''CRITICAL'')"
    using close_audio_or_sniffer_is_critical
      [of "- 59" _ "''JBL Speaker''" "''AA:BB''"] d3 k
    by blast
  then have r3: "map_sum id (\<lambda>dev. dev ''status'')
     (assess_device (''AA:BB'', ''JBL Speaker'', - 59)) = Inr (Some (JStr ''CRITICAL''))"
    by auto
  show ?thesis
    using v m c1 r1 s c2 r2 r3 by simp
qed


section \<open>Claims about the Bluetooth report endpoint\<close>

lemma filter_devices_eq:
  "filter_devices ds = Inr kept \<Longrightarrow> kept = filter (\<lambda>d. within_limit d = Inr True) ds"
proof (induction ds arbitrary: kept)
  case Nil
  then show ?case by simp
next
  case (Cons d ds)
  from Cons.prems obtain keep where k: "within_limit d = Inr keep"
    by (cases "within_limit d") auto
  from Cons.prems k obtain kept' where r: "filter_devices ds = Inr kept'"
    by (cases "filter_devices ds") auto
  have "kept' = filter (\<lambda>d. within_limit d = Inr True) ds"
    using Cons.IH r by blast
  then show ?case
    using Cons.prems k r by (cases keep) auto
qed

lemma filter_devices_returns:
  "\<forall>d \<in> set ds. \<exists>keep. within_limit d = Inr keep \<Longrightarrow> \<exists>kept. filter_devices ds = Inr kept"
  by (induction ds) auto

lemma within_limit_number:
  "within_limit d = Inr True \<Longrightarrow> d ''distance_m'' = Some (JNum x) \<Longrightarrow> x \<le> BT_PROXIMITY_LIMIT"
  by (simp add: within_limit_def dict_get_def)

lemma within_limit_absent: "d ''distance_m'' = None \<Longrightarrow> within_limit d = Inr False"
  by (simp add: within_limit_def dict_get_def BT_PROXIMITY_LIMIT_def)

lemma max_threat_loop_returns:
  "\<forall>d \<in> set ds. d ''status'' \<noteq> None \<Longrightarrow> \<exists>mt. max_threat_loop current ds = Inr mt"
  by (induction ds arbitrary: current) (auto simp: dict_index_def)

lemma bluetooth_scan_endpoint_returns:
  assumes "\<forall>d \<in> set ds. (d ''distance_m'' = None \<or> (\<exists>x. d ''distance_m'' = Some (JNum x)))
                          \<and> d ''status'' \<noteq> None"
    and "sd_devices data = Some ds"
  shows "\<exists>resp. bluetooth_scan_endpoint now (Some data) = Inr resp"
proof -
  have "\<forall>d \<in> set ds. \<exists>keep. within_limit d = Inr keep"
  proof
    fix d assume "d \<in> set ds"
    then have "d ''distance_m'' = None \<or> (\<exists>x. d ''distance_m'' = Some (JNum x))"
      using assms(1) by blast
    then show "\<exists>keep. within_limit d = Inr keep"
      by (auto simp: within_limit_def dict_get_def)
  qed
  then obtain kept where k: "filter_devices ds = Inr kept"
    using filter_devices_returns by blast
  then have "kept = filter (\<lambda>d. within_limit d = Inr True) ds"
    by (rule filter_devices_eq)
  then have "\<forall>d \<in> set kept. d ''status'' \<noteq> None"
    using assms(1) by auto
  then obtain mt where m: "max_threat_loop ''LOW'' kept = Inr mt"
    using max_threat_loop_returns by blast
  show ?thesis
    using assms(2) k m by (simp add: bluetooth_scan_endpoint_def falsy_def)
qed

text \<open>
  Claim C8. Whatever the scanner's file holds, a response of the endpoint lists no device
  whose distance_m is a number above the proximity limit of 10.0: the listed devices are
  exactly the input devices that pass the test
  \<open>device.get('distance_m', limit + 1) <= limit\<close>, in the input's order, and
  max_threat is computed by the loop over this filtered list only.
\<close>

theorem reported_devices_within_limit:
  assumes "bluetooth_scan_endpoint now raw = Inr resp"
  shows "BT_PROXIMITY_LIMIT = 10 \<and>
         (\<forall>d \<in> set (devices (bluetooth resp)).
            \<not> (\<exists>x. d ''distance_m'' = Some (JNum x) \<and> BT_PROXIMITY_LIMIT < x)) \<and>
         (\<forall>data. raw = Some data \<and> \<not> falsy raw \<longrightarrow>
            devices (bluetooth resp) =
              filter (\<lambda>d. within_limit d = Inr True)
                (case sd_devices data of None \<Rightarrow> [] | Some ds \<Rightarrow> ds) \<and>
            max_threat_loop ''LOW'' (devices (bluetooth resp))
              = Inr (max_threat (bluetooth resp)))"
proof (cases "falsy raw")
  case True
  then have "devices (bluetooth resp) = []"
    using assms by (auto simp: bluetooth_scan_endpoint_def split: option.splits)
  with True show ?thesis by (simp add: BT_PROXIMITY_LIMIT_def)
next
  case False
  then obtain data where raw: "raw = Some data"
    by (cases raw) (auto simp: falsy_def)
  define input where "input = (case sd_devices data of None \<Rightarrow> [] | Some ds \<Rightarrow> ds)"
  obtain kept where k: "filter_devices input = Inr kept"
    using assms False raw
    by (cases "filter_devices input") (auto simp: bluetooth_scan_endpoint_def input_def)
  obtain mt where m: "max_threat_loop ''LOW'' kept = Inr mt"
    using assms False raw k
    by (cases "max_threat_loop ''LOW'' kept") (auto simp: bluetooth_scan_endpoint_def input_def)
  have resp: "devices (bluetooth resp) = kept" "max_threat (bluetooth resp) = mt"
    using assms False raw k m by (auto simp: bluetooth_scan_endpoint_def input_def)
  have f: "kept = filter (\<lambda>d. within_limit d = Inr True) input"
    using k by (rule filter_devices_eq)
  have "\<forall>d \<in> set kept. \<not> (\<exists>x. d ''distance_m'' = Some (JNum x) \<and> BT_PROXIMITY_LIMIT < x)"
  proof
    fix d assume "d \<in> set kept"
    then have w: "within_limit d = Inr True" using f by simp
    show "\<not> (\<exists>x. d ''distance_m'' = Some (JNum x) \<and> BT_PROXIMITY_LIMIT < x)"
    proof
      assume "\<exists>x. d ''distance_m'' = Some (JNum x) \<and> BT_PROXIMITY_LIMIT < x"
      then obtain x where "d ''distance_m'' = Some (JNum x)" "BT_PROXIMITY_LIMIT < x" by blast
      then show False using within_limit_number [OF w] by fastforce
    qed
  qed
  then show ?thesis
    using resp f m raw by (simp add: BT_PROXIMITY_LIMIT_def input_def)
qed

lemma sample_scan_response:
  "bluetooth_scan_endpoint ''now'' (Some sample_scan) =
     Inr \<lparr>metadata = \<lparr>scan_time = JStr ''2025-01-01 10:00:00'', iteration = JNum 7\<rparr>,
          bluetooth = \<lparr>devices_detected = 2, devices = [near_device, edge_device],
                       max_threat = ''HIGH''\<rparr>\<rparr>"
proof -
  have w: "within_limit far_device = Inr False" "within_limit near_device = Inr True"
    "within_limit unmeasured_device = Inr False" "within_limit edge_device = Inr True"
    by (simp_all add: within_limit_def dict_get_def BT_PROXIMITY_LIMIT_def far_device_def
        near_device_def unmeasured_device_def edge_device_def)
  have s: "dict_index near_device ''status'' = Inr (JStr ''HIGH'')"
    "dict_index edge_device ''status'' = Inr (JStr ''LOW'')"
    by (simp_all add: dict_index_def near_device_def edge_device_def)
  show ?thesis
    by (simp add: bluetooth_scan_endpoint_def falsy_def sample_scan_def w s)
qed

theorem reported_devices_within_limit_witness:
  "bluetooth_scan_endpoint ''now'' (Some sample_scan) =
     Inr \<lparr>metadata = \<lparr>scan_time = JStr ''2025-01-01 10:00:00'', iteration = JNum 7\<rparr>,
          bluetooth = \<lparr>devices_detected = 2, devices = [near_device, edge_device],
                       max_threat = ''HIGH''\<rparr>\<rparr> \<and>
   sd_devices sample_scan = Some [far_device, near_device, unmeasured_device, edge_device] \<and>
   far_device ''distance_m'' = Some (JNum 12) \<and>
   near_device ''distance_m'' = Some (JNum 2.5) \<and>
   edge_device ''distance_m'' = Some (JNum 10) \<and>
   [near_device, edge_device] =
     filter (\<lambda>d. within_limit d = Inr True)
       [far_device, near_device, unmeasured_device, edge_device] \<and>
   max_threat_loop ''LOW'' [near_device, edge_device] = Inr ''HIGH''"
proof -
  let ?R = "\<lparr>metadata = \<lparr>scan_time = JStr ''2025-01-01 10:00:00'', iteration = JNum 7\<rparr>,
             bluetooth = \<lparr>devices_detected = 2, devices = [near_device, edge_device],
                          max_threat = ''HIGH''\<rparr>\<rparr>"
  have nf: "\<not> falsy (Some sample_scan)"
    by (simp add: falsy_def sample_scan_def)
  have sd: "sd_devices sample_scan = Some [far_device, near_device, unmeasured_device, edge_device]"
    by (simp add: sample_scan_def)
  have sel: "devices (bluetooth ?R) = [near_device, edge_device]"
    "max_threat (bluetooth ?R) = ''HIGH''"
    by simp_all
  have "\<forall>data. Some sample_scan = Some data \<and> \<not> falsy (Some sample_scan) \<longrightarrow>
            devices (bluetooth ?R) =
              filter (\<lambda>d. within_limit d = Inr True)
                (case sd_devices data of None \<Rightarrow> [] | Some ds \<Rightarrow> ds) \<and>
            max_threat_loop ''LOW'' (devices (bluetooth ?R)) = Inr (max_threat (bluetooth ?R))"
    using reported_devices_within_limit [OF sample_scan_response] by blast
  then have "devices (bluetooth ?R) =
              filter (\<lambda>d. within_limit d = Inr True)
                (case sd_devices sample_scan of None \<Rightarrow> [] | Some ds \<Rightarrow> ds) \<and>
            max_threat_loop ''LOW'' (devices (bluetooth ?R)) = Inr (max_threat (bluetooth ?R))"
    using nf by blast
  then have ab: "[near_device, edge_device] =
     filter (\<lambda>d. within_limit d = Inr True)
       [far_device, near_device, unmeasured_device, edge_device] \<and>
     max_threat_loop ''LOW'' [near_device, edge_device] = Inr ''HIGH''"
    unfolding sel sd option.case .
  have c: "far_device ''distance_m'' = Some (JNum 12)"
    "near_device ''distance_m'' = Some (JNum 2.5)"
    "edge_device ''distance_m'' = Some (JNum 10)"
    by (simp_all add: far_device_def near_device_def edge_device_def)
  show ?thesis
    using sample_scan_response sd ab c by blast
qed

section \<open>Claims about the change watcher\<close>

lemma tick_marker_cases:
  "last_modified_time (tick B G last_seen obs) = last_seen \<or>
   (\<exists>cur nets rep. mtime obs = Inr cur \<and> last_seen < cur \<and> payload obs = Some nets \<and>
      nets \<noteq> [] \<and> process_wifi_data B G nets = Inr rep \<and> emit_error obs = None \<and>
      tick B G last_seen obs =
        \<lparr>last_modified_time = cur, change_detected = True, emitted = [rep], slept = 1\<rparr>)"
  by (auto simp: tick_def split: sum.splits option.splits)

lemma tick_change_detected:
  "mtime obs = Inr cur \<Longrightarrow> change_detected (tick B G last_seen obs) \<longleftrightarrow> last_seen < cur"
  by (auto simp: tick_def split: sum.splits option.splits)

text \<open>
  Claim C4. In a pass where the file's modification time is strictly newer than
  \<open>last_modified_time\<close> but the fetch gives nothing (no data, or an empty list), the
  pass leaves \<open>last_modified_time\<close> as it was and emits no report, so a following
  pass that reads the same modification time enters the change branch again. The
  variable changes in a pass only if a non-empty list was fetched, \<open>process_wifi_data\<close>
  returned a report for it and the report was emitted; it then holds the modification
  time that was read.
\<close>

theorem marker_kept_until_processed:
  "(mtime obs = Inr cur \<and> last_seen < cur \<and> (payload obs = None \<or> payload obs = Some []) \<longrightarrow>
      last_modified_time (tick B G last_seen obs) = last_seen \<and>
      change_detected (tick B G last_seen obs) \<and>
      emitted (tick B G last_seen obs) = [] \<and>
      (\<forall>next_obs. mtime next_obs = Inr cur \<longrightarrow>
         change_detected
           (tick B G (last_modified_time (tick B G last_seen obs)) next_obs))) \<and>
   (last_modified_time (tick B G last_seen obs) \<noteq> last_seen \<longrightarrow>
      (\<exists>nets rep. payload obs = Some nets \<and> nets \<noteq> [] \<and>
         process_wifi_data B G nets = Inr rep \<and>
         emitted (tick B G last_seen obs) = [rep] \<and>
         mtime obs = Inr (last_modified_time (tick B G last_seen obs)) \<and>
         last_seen < last_modified_time (tick B G last_seen obs)))"
proof
  show "mtime obs = Inr cur \<and> last_seen < cur \<and> (payload obs = None \<or> payload obs = Some []) \<longrightarrow>
      last_modified_time (tick B G last_seen obs) = last_seen \<and>
      change_detected (tick B G last_seen obs) \<and>
      emitted (tick B G last_seen obs) = [] \<and>
      (\<forall>next_obs. mtime next_obs = Inr cur \<longrightarrow>
         change_detected
           (tick B G (last_modified_time (tick B G last_seen obs)) next_obs))"
  proof
    assume a: "mtime obs = Inr cur \<and> last_seen < cur \<and> (payload obs = None \<or> payload obs = Some [])"
    then have t: "tick B G last_seen obs =
        \<lparr>last_modified_time = last_seen, change_detected = True, emitted = [], slept = 1\<rparr>"
      by (auto simp: tick_def)
    have "\<forall>next_obs. mtime next_obs = Inr cur \<longrightarrow> change_detected (tick B G last_seen next_obs)"
      using a by (simp add: tick_change_detected)
    then show "last_modified_time (tick B G last_seen obs) = last_seen \<and>
      change_detected (tick B G last_seen obs) \<and>
      emitted (tick B G last_seen obs) = [] \<and>
      (\<forall>next_obs. mtime next_obs = Inr cur \<longrightarrow>
         change_detected
           (tick B G (last_modified_time (tick B G last_seen obs)) next_obs))"
      by (simp add: t)
  qed
  show "last_modified_time (tick B G last_seen obs) \<noteq> last_seen \<longrightarrow>
      (\<exists>nets rep. payload obs = Some nets \<and> nets \<noteq> [] \<and>
         process_wifi_data B G nets = Inr rep \<and>
         emitted (tick B G last_seen obs) = [rep] \<and>
         mtime obs = Inr (last_modified_time (tick B G last_seen obs)) \<and>
         last_seen < last_modified_time (tick B G last_seen obs))"
    using tick_marker_cases [of B G last_seen obs] by auto
qed

lemma process_home_calm:
  "process_wifi_data sample_builtins calm_artifacts [home_network] =
     Inr \<lparr>result = ''BENIGN'', score = 1 / 4, raw_features = [- 44, 15 / 10, 10, 9, 0],
          ssid = JStr ''HomeNet'', networks = [home_network], threat_tier = ''LOW''\<rparr>"
  by (simp add: process_wifi_data_def derive_features_home assess_signal_calm dict_index_def)
     (simp add: home_network_def dict_index_def)

theorem marker_kept_until_processed_witness:
  "last_modified_time (tick sample_builtins calm_artifacts 100 empty_read) = 100 \<and>
   last_modified_time (tick sample_builtins calm_artifacts 100 failed_read) = 100 \<and>
   emitted (tick sample_builtins calm_artifacts 100 empty_read) = [] \<and>
   change_detected (tick sample_builtins calm_artifacts
      (last_modified_time (tick sample_builtins calm_artifacts 100 empty_read)) good_read) \<and>
   last_modified_time (tick sample_builtins calm_artifacts 100 good_read) = 200 \<and>
   emitted (tick sample_builtins calm_artifacts 100 good_read) =
     [\<lparr>result = ''BENIGN'', score = 1 / 4, raw_features = [- 44, 15 / 10, 10, 9, 0],
       ssid = JStr ''HomeNet'', networks = [home_network], threat_tier = ''LOW''\<rparr>] \<and>
   check_for_file_updates sample_builtins calm_artifacts 100 [empty_read, failed_read, good_read] =
     (200, [\<lparr>result = ''BENIGN'', score = 1 / 4, raw_features = [- 44, 15 / 10, 10, 9, 0],
             ssid = JStr ''HomeNet'', networks = [home_network], threat_tier = ''LOW''\<rparr>])"
proof -
  have e: "mtime empty_read = Inr 200 \<and> (100::real) < 200 \<and>
           (payload empty_read = None \<or> payload empty_read = Some [])"
    by (simp add: empty_read_def)
  have f: "mtime failed_read = Inr 200 \<and> (100::real) < 200 \<and>
           (payload failed_read = None \<or> payload failed_read = Some [])"
    by (simp add: failed_read_def)
  have g: "mtime good_read = Inr 200"
    by (simp add: good_read_def)
  have 1: "last_modified_time (tick sample_builtins calm_artifacts 100 empty_read) = 100"
    and 2: "emitted (tick sample_builtins calm_artifacts 100 empty_read) = []"
    and 3: "change_detected (tick sample_builtins calm_artifacts
      (last_modified_time (tick sample_builtins calm_artifacts 100 empty_read)) good_read)"
    using marker_kept_until_processed [of empty_read 200 100 sample_builtins calm_artifacts] e g
    by blast+
  have 4: "last_modified_time (tick sample_builtins calm_artifacts 100 failed_read) = 100"
    using marker_kept_until_processed [of failed_read 200 100 sample_builtins calm_artifacts] f
    by blast
  have t: "tick sample_builtins calm_artifacts 100 good_read =
     \<lparr>last_modified_time = 200, change_detected = True,
      emitted = [\<lparr>result = ''BENIGN'', score = 1 / 4, raw_features = [- 44, 15 / 10, 10, 9, 0],
                  ssid = JStr ''HomeNet'', networks = [home_network], threat_tier = ''LOW''\<rparr>],
      slept = 1\<rparr>"
    by (simp add: tick_def good_read_def process_home_calm)
  have 5: "last_modified_time (tick sample_builtins calm_artifacts 100 good_read) = 200"
    and 6: "emitted (tick sample_builtins calm_artifacts 100 good_read) =
     [\<lparr>result = ''BENIGN'', score = 1 / 4, raw_features = [- 44, 15 / 10, 10, 9, 0],
       ssid = JStr ''HomeNet'', networks = [home_network], threat_tier = ''LOW''\<rparr>]"
    by (simp_all add: t)
  have 7: "check_for_file_updates sample_builtins calm_artifacts 100
             [empty_read, failed_read, good_read] =
     (200, [\<lparr>result = ''BENIGN'', score = 1 / 4, raw_features = [- 44, 15 / 10, 10, 9, 0],
             ssid = JStr ''HomeNet'', networks = [home_network], threat_tier = ''LOW''\<rparr>])"
    by (simp add: 1 2 4 t Let_def)
       (simp add: tick_def failed_read_def)
  show ?thesis
    using 1 2 3 4 5 6 7 by blast
qed

section \<open>Claims about the scoring pipeline\<close>

lemma app_startup_model_absent:
  assumes "app_startup ls lp lm = Some G"
    and "\<not> (\<exists>s p m. ls = Loaded s \<and> lp = Loaded p \<and> lm = Loaded m)"
  shows "MODEL G = None"
  using assms by (auto simp: app_startup_def split: load_result.splits)

lemma live_startup_model_absent:
  assumes "live_startup ls lp lm = Some G"
    and "\<not> (\<exists>s p m. ls = Loaded s \<and> lp = Loaded p \<and> lm = Loaded m)"
  shows "MODEL G = None"
  using assms by (auto simp: live_startup_def split: load_result.splits)

text \<open>
  Claim C2, for the standalone scoring function. After a start-up in which the artifact
  files were not found, \<open>assess_live_signal\<close> returns the label "ERROR", not
  "PROCESSING_ERROR"; and an exception raised by a transformation comes out of it.
\<close>

theorem assess_live_signal_counterexample:
  "live_startup LoadNotFound LoadNotFound LoadNotFound = Some no_artifacts \<and>
   assess_live_signal no_artifacts [- 44, 15 / 10, 10, 9, 0] = Inr (''ERROR'', 999) \<and>
   assess_live_signal no_artifacts [- 44, 15 / 10, 10, 9, 0] \<noteq> Inr (''PROCESSING_ERROR'', 999) \<and>
   assess_live_signal broken_artifacts [- 44, 15 / 10, 10, 9, 0] = Inl ValueError"
  by (simp add: live_startup_def no_artifacts_def assess_live_signal_def broken_artifacts_def
      artifact_eval)

text \<open>
  Claim C2, as it holds. In app.py \<open>assess_signal\<close> always returns and never raises.
  It returns ("PROCESSING_ERROR", 999.0) when the model global is \<open>None\<close>, which is the
  case after every start-up that went on although one of the three loads failed (a
  missing file ends the process at start-up instead), and when any step of transforming
  and scoring raises. In whispr\_live\_prediction.py \<open>assess_live_signal\<close> returns
  ("ERROR", 999.0) after a start-up in which a file was not found.
\<close>

theorem assess_signal_fail_safe:
  "(\<exists>risk sc. assess_signal G v = Inr (risk, sc)) \<and>
   (MODEL G = None \<longrightarrow> assess_signal G v = Inr (''PROCESSING_ERROR'', 999)) \<and>
   (transform_and_score G v = Inl e \<longrightarrow> assess_signal G v = Inr (''PROCESSING_ERROR'', 999)) \<and>
   (app_startup ls lp lm = Some G \<and>
      \<not> (\<exists>s p m. ls = Loaded s \<and> lp = Loaded p \<and> lm = Loaded m) \<longrightarrow>
      assess_signal G v = Inr (''PROCESSING_ERROR'', 999)) \<and>
   (live_startup ls lp lm = Some G \<and>
      \<not> (\<exists>s p m. ls = Loaded s \<and> lp = Loaded p \<and> lm = Loaded m) \<longrightarrow>
      assess_live_signal G v = Inr (''ERROR'', 999))"
proof -
  have 1: "\<exists>risk sc. assess_signal G v = Inr (risk, sc)"
    by (rule assess_signal_returns)
  have 2: "MODEL G = None \<longrightarrow> assess_signal G v = Inr (''PROCESSING_ERROR'', 999)"
    by (simp add: assess_signal_def)
  have 3: "transform_and_score G v = Inl e \<longrightarrow>
             assess_signal G v = Inr (''PROCESSING_ERROR'', 999)"
    by (simp add: assess_signal_def)
  have 4: "app_startup ls lp lm = Some G \<and>
      \<not> (\<exists>s p m. ls = Loaded s \<and> lp = Loaded p \<and> lm = Loaded m) \<longrightarrow>
      assess_signal G v = Inr (''PROCESSING_ERROR'', 999)"
    using app_startup_model_absent [of ls lp lm G] 2 by blast
  have 5: "live_startup ls lp lm = Some G \<and>
      \<not> (\<exists>s p m. ls = Loaded s \<and> lp = Loaded p \<and> lm = Loaded m) \<longrightarrow>
      assess_live_signal G v = Inr (''ERROR'', 999)"
    using live_startup_model_absent [of ls lp lm G] by (auto simp: assess_live_signal_def)
  show ?thesis
    using 1 2 3 4 5 by blast
qed

theorem assess_signal_fail_safe_witness:
  "app_startup (Loaded identity_transform) LoadFailed (Loaded calm_model)
     = Some half_loaded_artifacts \<and>
   assess_signal half_loaded_artifacts [- 44, 15 / 10, 10, 9, 0]
     = Inr (''PROCESSING_ERROR'', 999) \<and>
   transform_and_score broken_artifacts [- 44, 15 / 10, 10, 9, 0] = Inl ValueError \<and>
   assess_signal broken_artifacts [- 44, 15 / 10, 10, 9, 0] = Inr (''PROCESSING_ERROR'', 999) \<and>
   MODEL no_artifacts = None \<and>
   assess_signal no_artifacts [- 44, 15 / 10, 10, 9, 0] = Inr (''PROCESSING_ERROR'', 999) \<and>
   live_startup (Loaded identity_transform) LoadNotFound (Loaded calm_model)
     = Some no_artifacts \<and>
   assess_live_signal no_artifacts [- 44, 15 / 10, 10, 9, 0] = Inr (''ERROR'', 999) \<and>
   assess_signal calm_artifacts [- 44, 15 / 10, 10, 9, 0] = Inr (''BENIGN'', 1 / 4)"
proof -
  let ?v = "[- 44, 15 / 10, 10, 9, 0] :: real list"
  have s: "app_startup (Loaded identity_transform) LoadFailed (Loaded calm_model)
     = Some half_loaded_artifacts"
    by (simp add: app_startup_def half_loaded_artifacts_def)
  have nl: "\<not> (\<exists>s p m. Loaded identity_transform = Loaded s \<and>
                (LoadFailed :: (fvec \<Rightarrow> exn + fvec) load_result) = Loaded p \<and>
                Loaded calm_model = Loaded m)"
    by simp
  have a: "assess_signal half_loaded_artifacts ?v = Inr (''PROCESSING_ERROR'', 999)"
    using assess_signal_fail_safe
      [of half_loaded_artifacts ?v _ "Loaded identity_transform" LoadFailed "Loaded calm_model"]
      s nl
    by blast
  have t: "transform_and_score broken_artifacts ?v = Inl ValueError"
    by (simp add: broken_artifacts_def artifact_eval)
  have b: "assess_signal broken_artifacts ?v = Inr (''PROCESSING_ERROR'', 999)"
    using assess_signal_fail_safe [of broken_artifacts ?v ValueError] t by blast
  have m: "MODEL no_artifacts = None"
    by (simp add: no_artifacts_def)
  have c: "assess_signal no_artifacts ?v = Inr (''PROCESSING_ERROR'', 999)"
    using assess_signal_fail_safe [of no_artifacts ?v] m by blast
  have ls: "live_startup (Loaded identity_transform) LoadNotFound (Loaded calm_model)
     = Some no_artifacts"
    by (simp add: live_startup_def no_artifacts_def)
  have nl': "\<not> (\<exists>s p m. Loaded identity_transform = Loaded s \<and>
                (LoadNotFound :: (fvec \<Rightarrow> exn + fvec) load_result) = Loaded p \<and>
                Loaded calm_model = Loaded m)"
    by simp
  have d: "assess_live_signal no_artifacts ?v = Inr (''ERROR'', 999)"
    using assess_signal_fail_safe
      [of no_artifacts ?v _ "Loaded identity_transform" LoadNotFound "Loaded calm_model"]
      ls nl'
    by blast
  have e: "assess_signal calm_artifacts ?v = Inr (''BENIGN'', 1 / 4)"
    by (rule assess_signal_calm)
  show ?thesis
    using s a t b m c ls d e by blast
qed

end
